theory Spec2Isabelle
  imports Main "HOL-Library.AList"
begin

section \<open>Values, dictionaries and errors\<close>

text \<open>
  The workspace of \<^verbatim>\<open>cubes/workspace.py\<close> keeps three dictionaries (store
  descriptions, live stores, resolved cubes) and a tree of namespaces. Python objects
  whose identity matters (cubes, live stores) live in an explicit heap and are named by
  their address; an address is the position of the object in the heap, so a new object
  never shares its address with an older one.
\<close>

type_synonym addr = nat
type_synonym ns_path = "string list"

text \<open>Values a caller may pass where the signature says \<^verbatim>\<open>Any\<close>.\<close>

datatype py_value = PyNone | PyStr string | PyInt int

text \<open>
  Values of a configuration or metadata dictionary (\<^verbatim>\<open>JSONType\<close>): a string or a
  nested dictionary. A dictionary is an association list with distinct keys, in
  insertion order.
\<close>

datatype cfg_value = CStr string | CDict "(string \<times> cfg_value) list"

type_synonym jdict = "(string \<times> cfg_value) list"

text \<open>Python truthiness of the values tested by \<^verbatim>\<open>if x:\<close> and \<^verbatim>\<open>x or y\<close>.\<close>

fun truthy :: "cfg_value \<Rightarrow> bool" where
  "truthy (CStr s) = (s \<noteq> [])"
| "truthy (CDict d) = (d \<noteq> [])"

definition truthy_opt :: "cfg_value option \<Rightarrow> bool" where
  "truthy_opt v = (case v of None \<Rightarrow> False | Some x \<Rightarrow> truthy x)"

definition str_truthy :: "string option \<Rightarrow> bool" where
  "str_truthy v = (case v of None \<Rightarrow> False | Some s \<Rightarrow> s \<noteq> [])"

text \<open>\<^verbatim>\<open>d.update(e)\<close>: the entries of \<open>e\<close>, in their order, overwrite or extend \<open>d\<close>.\<close>

fun dict_update :: "jdict \<Rightarrow> jdict \<Rightarrow> jdict" where
  "dict_update d [] = d"
| "dict_update d ((k, v) # e) = dict_update (AList.update k v d) e"

text \<open>
  The exceptions the workspace raises itself, and \<open>ExtError\<close> for an exception raised
  inside a collaborator (a provider, a store backend, a browser class) that the
  workspace lets through. \<open>InvalidReference\<close> is not a Python exception: it marks an
  address that denotes no object, which Python cannot express.
\<close>

datatype error =
    TypeError
  | AttributeError
  | KeyError
  | AssertionError
  | ArgumentError
  | ConfigurationError
  | NotAuthorized
  | NoSuchCubeError
  | InvalidReference
  | ExtError string

section \<open>Cubes, providers, stores\<close>

text \<open>
  The \<^verbatim>\<open>store\<close> attribute of a cube. The assertion in \<^verbatim>\<open>browser\<close> distinguishes a
  name, \<^verbatim>\<open>None\<close> and anything else (a live store).
\<close>

datatype store_field = NoStore | StoreName string | LiveStore addr

record cube_obj =
  c_name :: string
  c_basename :: string
  c_namespace :: "ns_path option"
  c_store :: store_field
  c_browser :: "string option"
  c_browser_options :: jdict
  c_locale :: "string option"
  c_label :: "string option"
  c_description :: "string option"

text \<open>The translation of one object, as \<^verbatim>\<open>object_localization\<close> returns it.\<close>

record localization =
  l_label :: "string option"
  l_description :: "string option"

text \<open>
  Modelled from the spec: \<^verbatim>\<open>Cube.localized\<close> (class \<^verbatim>\<open>Cube\<close> of
  \<^verbatim>\<open>cubes.metadata\<close>) produces a localized copy of the cube in which the translatable
  label and description are replaced where the translation has them; every other field
  is copied.
\<close>

definition localized :: "cube_obj \<Rightarrow> localization \<Rightarrow> cube_obj" where
  "localized c t =
     c\<lparr>c_label := (case l_label t of None \<Rightarrow> c_label c | Some x \<Rightarrow> Some x),
       c_description := (case l_description t of None \<Rightarrow> c_description c | Some x \<Rightarrow> Some x)\<rparr>"

text \<open>
  Modelled from the spec: a \<^verbatim>\<open>ModelProvider\<close> (class of \<^verbatim>\<open>cubes.metadata.providers\<close>).
  Its \<^verbatim>\<open>store\<close> attribute is the name of its store or absent, not a live store; it
  accepts a store binding (\<open>p_bound\<close>); \<open>p_requires_store\<close> is \<open>None\<close> when the object
  has no \<^verbatim>\<open>requires_store\<close> method; \<open>p_cube\<close> produces a cube for a basename, a
  locale and a namespace, or raises.
\<close>

record provider =
  p_store :: "string option"
  p_bound :: "addr option"
  p_requires_store :: "bool option"
  p_cube :: "string \<Rightarrow> string option \<Rightarrow> ns_path \<Rightarrow> string + cube_obj"

definition bind :: "provider \<Rightarrow> addr \<Rightarrow> provider" where
  "bind p a = p\<lparr>p_bound := Some a\<rparr>"

text \<open>
  What the variable \<^verbatim>\<open>provider_obj\<close> of \<^verbatim>\<open>import_model\<close> may hold, and so what a
  namespace may be given as a provider: a provider, or a non-empty dictionary, which
  reaches it from a store configuration whose \<^verbatim>\<open>model_provider\<close> is one.
\<close>

datatype provider_value = ProviderObject provider | ProviderDict jdict

definition store_field_of :: "string option \<Rightarrow> store_field" where
  "store_field_of n = (case n of None \<Rightarrow> NoStore | Some s \<Rightarrow> StoreName s)"

text \<open>A cube description as \<^verbatim>\<open>list_cubes\<close> returns it.\<close>

record cube_desc =
  d_name :: string
  d_label :: "string option"
  d_category :: "string option"
  d_info :: jdict

text \<open>A live store, and the store class that \<^verbatim>\<open>Store.concrete_extension\<close> finds.\<close>

record store_obj =
  s_extension_name :: "string option"
  s_default_browser_name :: "string option option"
  s_options :: jdict

record store_factory =
  sf_related_model_provider :: "string option"
  sf_create_with_dict :: "jdict \<Rightarrow> string + store_obj"

record browser_class =
  bc_distill_settings :: "jdict \<Rightarrow> string + jdict"

type_synonym calendar = "string option \<times> nat"

record browser_obj =
  b_class :: string
  b_cube :: addr
  b_store :: addr
  b_locale :: "string option"
  b_calendar :: calendar
  b_naming :: "jdict option"
  b_settings :: jdict

section \<open>The namespace tree\<close>

text \<open>
  Modelled from the spec: class \<^verbatim>\<open>Namespace\<close> of \<^verbatim>\<open>cubes.namespace\<close>. A namespace has
  an ordered list of providers, named child namespaces and a translation source per
  locale. A namespace object is identified by its path from the root.
\<close>

datatype ns_tree =
  Namespace (ns_providers: "provider_value list")
            (ns_namespaces: "(string \<times> ns_tree) list")
            (ns_translations: "(string \<times> cfg_value) list")

definition empty_namespace :: ns_tree where
  "empty_namespace = Namespace [] [] []"

definition add_provider :: "provider_value \<Rightarrow> ns_tree \<Rightarrow> ns_tree" where
  "add_provider p n = Namespace (ns_providers n @ [p]) (ns_namespaces n) (ns_translations n)"

text \<open>Descending the tree by path segments; no segments is the namespace itself.\<close>

fun ns_find :: "ns_tree \<Rightarrow> ns_path \<Rightarrow> ns_tree option" where
  "ns_find n [] = Some n"
| "ns_find n (s # ss) =
     (case map_of (ns_namespaces n) s of None \<Rightarrow> None | Some c \<Rightarrow> ns_find c ss)"

text \<open>
  \<^verbatim>\<open>namespace(path, create=True)\<close> followed by a change \<open>f\<close> of the namespace it
  returns: every missing segment is created, then \<open>f\<close> is applied to the target.
\<close>

fun ns_modify :: "(ns_tree \<Rightarrow> ns_tree) \<Rightarrow> ns_path \<Rightarrow> ns_tree \<Rightarrow> ns_tree" where
  "ns_modify f [] n = f n"
| "ns_modify f (s # ss) n =
     (case map_of (ns_namespaces n) s of
        None \<Rightarrow> Namespace (ns_providers n)
                  (ns_namespaces n @ [(s, ns_modify f ss empty_namespace)])
                  (ns_translations n)
      | Some c \<Rightarrow> Namespace (ns_providers n)
                  (AList.update s (ns_modify f ss c) (ns_namespaces n))
                  (ns_translations n))"

section \<open>Collaborators\<close>

text \<open>
  The parts of the repository that the workspace calls and that are not part of
  \<^verbatim>\<open>workspace.py\<close> are parameters: the extension registries for stores, providers
  and browsers, \<^verbatim>\<open>read_model_metadata\<close>, the lookups of \<^verbatim>\<open>Namespace\<close>
  (\<^verbatim>\<open>find_cube\<close>, \<^verbatim>\<open>list_cubes(recursive=True)\<close>, \<^verbatim>\<open>translation_lookup\<close>),
  \<^verbatim>\<open>LocalizationContext.object_localization\<close>, \<^verbatim>\<open>distill_naming\<close> and the way
  \<^verbatim>\<open>Namespace.namespace\<close> splits a path into segments.
\<close>

record env =
  store_ext :: "string \<Rightarrow> store_factory option"
  provider_ext :: "string \<Rightarrow> (jdict \<Rightarrow> string + provider) option"
  browser_ext :: "string \<Rightarrow> browser_class option"
  read_model_metadata :: "string \<Rightarrow> string + jdict"
  find_cube :: "ns_tree \<Rightarrow> string \<Rightarrow> (ns_path \<times> provider \<times> string) option"
  ns_list_cubes :: "ns_tree \<Rightarrow> cube_desc list"
  translation_lookup :: "ns_tree \<Rightarrow> ns_path \<Rightarrow> string option \<Rightarrow> cfg_value list"
  object_localization :: "cfg_value \<Rightarrow> string \<Rightarrow> string \<Rightarrow> localization"
  distill_naming :: "jdict \<Rightarrow> jdict"
  split_path :: "string \<Rightarrow> ns_path"

text \<open>
  Modelled from the spec: \<^verbatim>\<open>concrete_extension\<close> (module \<^verbatim>\<open>cubes.ext\<close>) looks a type
  identifier up in a registry and fails with a configuration error when it does not
  resolve.
\<close>

definition concrete_extension :: "(string \<Rightarrow> 'a option) \<Rightarrow> cfg_value \<Rightarrow> error + 'a" where
  "concrete_extension registry t =
     (case t of
        CStr s \<Rightarrow> (case registry s of None \<Rightarrow> Inl ConfigurationError | Some x \<Rightarrow> Inr x)
      | CDict d \<Rightarrow> Inl ConfigurationError)"

section \<open>The workspace\<close>

text \<open>
  The fields of \<^verbatim>\<open>Workspace\<close> that the operations below read or write, and the two
  heaps. The authorizer, when there is one, is its method
  \<^verbatim>\<open>authorize(identity, references)\<close>, which returns a list of references. The key
  of the cube cache is the triple of reference, identity and locale.
\<close>

type_synonym cube_key = "string \<times> py_value \<times> string option"

record workspace =
  store_infos :: "string \<Rightarrow> (cfg_value \<times> jdict) option"
  stores :: "string \<Rightarrow> addr option"
  namespace :: ns_tree
  authorizer :: "(py_value \<Rightarrow> string list \<Rightarrow> string list) option"
  cubes :: "cube_key \<Rightarrow> addr option"
  browser_options :: jdict
  namings :: "string \<Rightarrow> jdict option"
  calendar :: calendar
  models_dir :: string
  cube_heap :: "cube_obj list"
  store_heap :: "store_obj list"

text \<open>The object at an address, when the address denotes one.\<close>

definition deref :: "'a list \<Rightarrow> addr \<Rightarrow> 'a option" where
  "deref h a = (if a < length h then Some (h ! a) else None)"

text \<open>
  Modelled from the spec: the object that \<^verbatim>\<open>ModelProvider.cube\<close>,
  \<^verbatim>\<open>Cube.localized\<close> or \<^verbatim>\<open>Store.create_with_dict\<close> returns is a new object (a
  provider owns no cache itself, a localized cube is a copy, a store is constructed). A
  new object gets the next address of the heap.
\<close>

definition alloc :: "'a list \<Rightarrow> 'a \<Rightarrow> addr \<times> 'a list" where
  "alloc h x = (length h, h @ [x])"

subsection \<open>flush_lookup_cache\<close>

definition flush_lookup_cache :: "workspace \<Rightarrow> workspace" where
  "flush_lookup_cache ws = ws\<lparr>cubes := Map.empty\<rparr>"

subsection \<open>cube\<close>

text \<open>
  The four assignments stamp the object the provider returned; a translation, when one
  is found, gives a second object, the localized copy, and that one is cached.
\<close>

definition stamp :: "cube_obj \<Rightarrow> ns_path \<Rightarrow> provider \<Rightarrow> string \<Rightarrow> string \<Rightarrow> cube_obj" where
  "stamp c ns p basename ref =
     c\<lparr>c_namespace := Some ns, c_store := store_field_of (p_store p),
       c_basename := basename, c_name := ref\<rparr>"

definition cube ::
  "env \<Rightarrow> workspace \<Rightarrow> py_value \<Rightarrow> py_value \<Rightarrow> string option \<Rightarrow> (error + addr) \<times> workspace"
where
  "cube e ws ref identity locale =
     (case ref of
        PyStr r \<Rightarrow>
          (if (case authorizer ws of None \<Rightarrow> False | Some auth \<Rightarrow> auth identity [r] = [])
           then (Inl NotAuthorized, ws)
           else
             (case cubes ws (r, identity, locale) of
                Some a \<Rightarrow> (Inr a, ws)
              | None \<Rightarrow>
                  (case find_cube e (namespace ws) r of
                     None \<Rightarrow> (Inl NoSuchCubeError, ws)
                   | Some (ns, p, basename) \<Rightarrow>
                       (case p_cube p basename locale ns of
                          Inl m \<Rightarrow> (Inl (ExtError m), ws)
                        | Inr c0 \<Rightarrow>
                            (let c1 = stamp c0 ns p basename r;
                                 (a1, h1) = alloc (cube_heap ws) c1
                             in (case translation_lookup e (namespace ws) ns locale of
                                   [] \<Rightarrow>
                                     (Inr a1,
                                      ws\<lparr>cube_heap := h1,
                                         cubes := (cubes ws)((r, identity, locale) \<mapsto> a1)\<rparr>)
                                 | t # ts \<Rightarrow>
                                     (let trans = object_localization e t ''cubes'' (c_name c1);
                                          (a2, h2) = alloc h1 (localized c1 trans)
                                      in (Inr a2,
                                          ws\<lparr>cube_heap := h2,
                                             cubes := (cubes ws)((r, identity, locale) \<mapsto> a2)\<rparr>))))))))
      | _ \<Rightarrow> (Inl TypeError, ws))"

subsection \<open>list_cubes and cube_names\<close>

text \<open>
  \<^verbatim>\<open>[by_name[name] for name in authorized]\<close>: a name that is not a key of the
  dictionary raises \<^verbatim>\<open>KeyError\<close>.
\<close>

fun lookup_all :: "(string \<Rightarrow> cube_desc option) \<Rightarrow> string list \<Rightarrow> error + cube_desc list" where
  "lookup_all by_name [] = Inr []"
| "lookup_all by_name (n # ns) =
     (case by_name n of
        None \<Rightarrow> Inl KeyError
      | Some c \<Rightarrow> (case lookup_all by_name ns of Inl err \<Rightarrow> Inl err | Inr cs \<Rightarrow> Inr (c # cs)))"

text \<open>
  \<^verbatim>\<open>{cube["name"]: cube for cube in all_cubes}\<close>: of two descriptions with one name
  the later one stays.
\<close>

definition by_name_dict :: "cube_desc list \<Rightarrow> string \<Rightarrow> cube_desc option" where
  "by_name_dict all_cubes = map_of (rev (map (\<lambda>c. (d_name c, c)) all_cubes))"

definition list_cubes :: "env \<Rightarrow> workspace \<Rightarrow> py_value \<Rightarrow> error + cube_desc list" where
  "list_cubes e ws identity =
     (let all_cubes = ns_list_cubes e (namespace ws)
      in (case authorizer ws of
            None \<Rightarrow> Inr all_cubes
          | Some auth \<Rightarrow>
              (let by_name = by_name_dict all_cubes;
                   names = map d_name all_cubes;
                   authorized = auth identity names
               in lookup_all by_name authorized)))"

text \<open>The body calls \<^verbatim>\<open>self.list_cubes()\<close> with no argument: its identity is \<^verbatim>\<open>None\<close>.\<close>

definition cube_names :: "env \<Rightarrow> workspace \<Rightarrow> py_value \<Rightarrow> error + string list" where
  "cube_names e ws identity =
     (case list_cubes e ws PyNone of Inl err \<Rightarrow> Inl err | Inr cs \<Rightarrow> Inr (map d_name cs))"

subsection \<open>get_store\<close>

text \<open>\<^verbatim>\<open>name or "default"\<close>.\<close>

definition name_or_default :: "string option \<Rightarrow> string" where
  "name_or_default name0 =
     (case name0 of None \<Rightarrow> ''default'' | Some s \<Rightarrow> (if s \<noteq> [] then s else ''default''))"

definition get_store ::
  "env \<Rightarrow> workspace \<Rightarrow> string option \<Rightarrow> (error + addr) \<times> workspace"
where
  "get_store e ws name0 =
     (let name = name_or_default name0
      in (case stores ws name of
            Some a \<Rightarrow> (Inr a, ws)
          | None \<Rightarrow>
              (case store_infos ws name of
                 None \<Rightarrow> (Inl ConfigurationError, ws)
               | Some (stype, options) \<Rightarrow>
                   (case concrete_extension (store_ext e) stype of
                      Inl err \<Rightarrow> (Inl err, ws)
                    | Inr ext \<Rightarrow>
                        (case sf_create_with_dict ext options of
                           Inl m \<Rightarrow> (Inl (ExtError m), ws)
                         | Inr store \<Rightarrow>
                             (let (a, h) = alloc (store_heap ws) store
                              in (Inr a, ws\<lparr>store_heap := h, stores := (stores ws)(name \<mapsto> a)\<rparr>)))))))"

subsection \<open>import_model\<close>

text \<open>\<^verbatim>\<open>os.path.isabs\<close> and \<^verbatim>\<open>os.path.join\<close> of two components, on POSIX paths.\<close>

definition isabs :: "string \<Rightarrow> bool" where
  "isabs p = (case p of [] \<Rightarrow> False | c # cs \<Rightarrow> c = CHR ''/'')"

definition path_join :: "string \<Rightarrow> string \<Rightarrow> string" where
  "path_join a b =
     (if isabs b then b
      else if a = [] \<or> last a = CHR ''/'' then a @ b
      else a @ ''/'' @ b)"

text \<open>
  Step 1, the metadata: a string is a path, read through \<^verbatim>\<open>read_model_metadata\<close>; a
  dictionary is used as it is; \<^verbatim>\<open>None\<close> is the empty dictionary. (The values of this
  model are strings, dictionaries or absent, so the branch for any other type, a
  configuration error, has no input here.)
\<close>

definition model_metadata :: "env \<Rightarrow> workspace \<Rightarrow> cfg_value option \<Rightarrow> error + jdict" where
  "model_metadata e ws model =
     (case model of
        Some (CStr path) \<Rightarrow>
          (case read_model_metadata e
                  (if models_dir ws \<noteq> [] \<and> \<not> isabs path then path_join (models_dir ws) path
                   else path) of
             Inl m \<Rightarrow> Inl (ExtError m)
           | Inr md \<Rightarrow> Inr md)
      | Some (CDict d) \<Rightarrow> Inr d
      | None \<Rightarrow> Inr [])"

text \<open>
  Step 2, the provider: a name (any string, also the empty one) is constructed; any
  other value is taken as it is, and when it is falsy (\<^verbatim>\<open>None\<close>, an empty
  dictionary) the provider named in the metadata, by default \<open>static\<close>, is constructed.
\<close>

datatype provider_arg = ProviderNone | ProviderName string | ProviderValue provider_value

definition construct_provider :: "env \<Rightarrow> cfg_value \<Rightarrow> jdict \<Rightarrow> error + provider_value" where
  "construct_provider e name model =
     (case concrete_extension (provider_ext e) name of
        Inl err \<Rightarrow> Inl err
      | Inr cls \<Rightarrow>
          (case cls model of Inl m \<Rightarrow> Inl (ExtError m) | Inr p \<Rightarrow> Inr (ProviderObject p)))"

definition metadata_provider :: "env \<Rightarrow> jdict \<Rightarrow> error + provider_value" where
  "metadata_provider e model =
     construct_provider e
       (case map_of model ''provider'' of None \<Rightarrow> CStr ''static'' | Some v \<Rightarrow> v) model"

definition model_provider :: "env \<Rightarrow> provider_arg \<Rightarrow> jdict \<Rightarrow> error + provider_value" where
  "model_provider e provider model =
     (case provider of
        ProviderName n \<Rightarrow> construct_provider e (CStr n) model
      | ProviderValue (ProviderObject p) \<Rightarrow> Inr (ProviderObject p)
      | ProviderValue (ProviderDict d) \<Rightarrow>
          (if d \<noteq> [] then Inr (ProviderDict d) else metadata_provider e model)
      | ProviderNone \<Rightarrow> metadata_provider e model)"

text \<open>
  Step 3, the store: \<^verbatim>\<open>store or model.get("store")\<close>, and \<^verbatim>\<open>get_store\<close> on that
  value. A non-empty dictionary is no dictionary key (\<^verbatim>\<open>TypeError\<close>); an empty one is
  falsy, so the name defaults.
\<close>

definition effective_store :: "string option \<Rightarrow> jdict \<Rightarrow> cfg_value option" where
  "effective_store store model =
     (if str_truthy store then map_option CStr store else map_of model ''store'')"

definition get_store_value ::
  "env \<Rightarrow> workspace \<Rightarrow> cfg_value option \<Rightarrow> (error + addr) \<times> workspace"
where
  "get_store_value e ws store =
     (case store of
        None \<Rightarrow> get_store e ws None
      | Some (CStr s) \<Rightarrow> get_store e ws (Some s)
      | Some (CDict d) \<Rightarrow> (if d = [] then get_store e ws None else (Inl TypeError, ws)))"

text \<open>
  \<^verbatim>\<open>provider_obj.bind(self.get_store(store))\<close>, when there is a store or the provider
  requires one. A dictionary has no \<^verbatim>\<open>requires_store\<close> and no \<^verbatim>\<open>bind\<close>: with a
  store the call fails with \<^verbatim>\<open>AttributeError\<close> on \<^verbatim>\<open>provider_obj.bind\<close>, before
  the store is opened.
\<close>

definition bind_store ::
  "env \<Rightarrow> workspace \<Rightarrow> provider_value \<Rightarrow> cfg_value option
     \<Rightarrow> (error + provider_value) \<times> workspace"
where
  "bind_store e ws provider_obj store =
     (case provider_obj of
        ProviderDict d \<Rightarrow>
          (if truthy_opt store then (Inl AttributeError, ws) else (Inr provider_obj, ws))
      | ProviderObject p \<Rightarrow>
          (if truthy_opt store \<or> p_requires_store p = Some True
           then (case get_store_value e ws store of
                   (Inl err, ws1) \<Rightarrow> (Inl err, ws1)
                 | (Inr a, ws1) \<Rightarrow> (Inr (ProviderObject (bind p a)), ws1))
           else (Inr provider_obj, ws)))"

text \<open>
  The path that \<^verbatim>\<open>namespace(store, create=True)\<close> descends: a falsy path has no
  segments and denotes the root.
\<close>

definition store_path :: "env \<Rightarrow> cfg_value option \<Rightarrow> ns_path" where
  "store_path e store =
     (case store of
        Some (CStr s) \<Rightarrow> (if s = [] then [] else split_path e s)
      | _ \<Rightarrow> [])"

text \<open>
  Step 4, the namespace. A truthy \<^verbatim>\<open>namespace\<close> argument is \<open>default\<close>, another
  string, or something else, which is then taken for the namespace itself: a dictionary
  has no \<^verbatim>\<open>add_provider\<close>, so the last line fails with \<^verbatim>\<open>AttributeError\<close>. (A
  \<^verbatim>\<open>Namespace\<close> object is outside the annotation of the parameter and has no input
  here.) Without the argument the store decides.
\<close>

definition target_namespace ::
  "env \<Rightarrow> cfg_value option \<Rightarrow> cfg_value option \<Rightarrow> error + ns_path"
where
  "target_namespace e namespace0 store =
     (if truthy_opt namespace0
      then (case namespace0 of
              Some (CStr n) \<Rightarrow> (if n = ''default'' then Inr [] else Inr (split_path e n))
            | Some (CDict d) \<Rightarrow> Inl AttributeError
            | None \<Rightarrow> Inr [])
      else if store = Some (CStr ''default'') then Inr []
      else Inr (store_path e store))"

definition import_model ::
  "env \<Rightarrow> workspace \<Rightarrow> cfg_value option \<Rightarrow> provider_arg \<Rightarrow> string option
     \<Rightarrow> cfg_value option \<Rightarrow> (error + unit) \<times> workspace"
where
  "import_model e ws model0 provider store0 namespace0 =
     (case model_metadata e ws model0 of
        Inl err \<Rightarrow> (Inl err, ws)
      | Inr model \<Rightarrow>
          (case model_provider e provider model of
             Inl err \<Rightarrow> (Inl err, ws)
           | Inr provider_obj \<Rightarrow>
               (let store = effective_store store0 model
                in (case bind_store e ws provider_obj store of
                      (Inl err, ws1) \<Rightarrow> (Inl err, ws1)
                    | (Inr bound, ws1) \<Rightarrow>
                        (case target_namespace e namespace0 store of
                           Inl err \<Rightarrow> (Inl err, ws1)
                         | Inr ns \<Rightarrow>
                             (Inr (),
                              ws1\<lparr>namespace :=
                                    ns_modify (add_provider bound) ns (namespace ws1)\<rparr>))))))"

subsection \<open>register_store\<close>

text \<open>
  The dictionary stored in \<^verbatim>\<open>store_infos\<close> is the very object that the later
  \<^verbatim>\<open>pop\<close> calls change, so the stored configuration loses the popped keys too.
\<close>

definition record_info :: "workspace \<Rightarrow> string \<Rightarrow> cfg_value \<Rightarrow> jdict \<Rightarrow> workspace" where
  "record_info ws name stype config = ws\<lparr>store_infos := (store_infos ws)(name \<mapsto> (stype, config))\<rparr>"

text \<open>
  The value popped from \<^verbatim>\<open>model_provider\<close> (or the related provider of the store
  class), as the argument \<^verbatim>\<open>provider\<close> of \<^verbatim>\<open>import_model\<close>.
\<close>

definition provider_arg_of :: "cfg_value option \<Rightarrow> provider_arg" where
  "provider_arg_of v =
     (case v of
        None \<Rightarrow> ProviderNone
      | Some (CStr s) \<Rightarrow> ProviderName s
      | Some (CDict d) \<Rightarrow> ProviderValue (ProviderDict d))"

definition register_store ::
  "env \<Rightarrow> workspace \<Rightarrow> string \<Rightarrow> cfg_value \<Rightarrow> bool \<Rightarrow> jdict \<Rightarrow> (error + unit) \<times> workspace"
where
  "register_store e ws name stype include_model config0 =
     (if store_infos ws name \<noteq> None then (Inl ConfigurationError, ws)
      else
        (let model = (if include_model \<and> map_of config0 ''model'' \<noteq> None
                      then map_of config0 ''model'' else None);
             config1 = (if include_model \<and> map_of config0 ''model'' \<noteq> None
                        then AList.delete ''model'' config0 else config0)
         in (case concrete_extension (store_ext e) stype of
               Inl err \<Rightarrow> (Inl err, record_info ws name stype config1)
             | Inr store_factory \<Rightarrow>
                 (let provider = (case map_of config1 ''model_provider'' of
                                    Some v \<Rightarrow> Some v
                                  | None \<Rightarrow> map_option CStr (sf_related_model_provider store_factory));
                      config2 = AList.delete ''model_provider'' config1;
                      nsname = map_of config2 ''namespace'';
                      config3 = AList.delete ''namespace'' config2;
                      ws1 = record_info ws name stype config3
                  in if truthy_opt model
                     then import_model e ws1 model (provider_arg_of provider) (Some name) nsname
                     else if truthy_opt provider
                     then import_model e ws1 (Some (CDict [])) (provider_arg_of provider)
                            (Some name) nsname
                     else (Inr (), ws1)))))"

text \<open>
  \<^verbatim>\<open>_register_store_dict\<close>: the type is popped from \<^verbatim>\<open>type\<close>, else from
  \<^verbatim>\<open>backend\<close>. The rest goes to \<^verbatim>\<open>register_store\<close> as keyword arguments, so a key
  \<^verbatim>\<open>include_model\<close> sets that parameter, and a key naming another parameter is a
  \<^verbatim>\<open>TypeError\<close> of the call.
\<close>

definition register_store_kw ::
  "env \<Rightarrow> workspace \<Rightarrow> string \<Rightarrow> cfg_value \<Rightarrow> jdict \<Rightarrow> (error + unit) \<times> workspace"
where
  "register_store_kw e ws name stype info =
     (if map_of info ''self'' \<noteq> None \<or> map_of info ''name'' \<noteq> None
         \<or> map_of info ''type_'' \<noteq> None
      then (Inl TypeError, ws)
      else register_store e ws name stype
             (case map_of info ''include_model'' of None \<Rightarrow> True | Some v \<Rightarrow> truthy v)
             (AList.delete ''include_model'' info))"

definition register_store_dict ::
  "env \<Rightarrow> workspace \<Rightarrow> string \<Rightarrow> jdict \<Rightarrow> (error + unit) \<times> workspace"
where
  "register_store_dict e ws name info =
     (case map_of info ''type'' of
        Some stype \<Rightarrow> register_store_kw e ws name stype (AList.delete ''type'' info)
      | None \<Rightarrow>
          (case map_of info ''backend'' of
             Some stype \<Rightarrow> register_store_kw e ws name stype (AList.delete ''backend'' info)
           | None \<Rightarrow> (Inl ConfigurationError, ws)))"

subsection \<open>browser\<close>

definition browser_options_of :: "workspace \<Rightarrow> cube_obj \<Rightarrow> jdict" where
  "browser_options_of ws c =
     (if c_browser_options c \<noteq> [] then dict_update (browser_options ws) (c_browser_options c)
      else browser_options ws)"

datatype cube_arg = CubeRef string | CubeObject addr

definition browser_name_of :: "cube_obj \<Rightarrow> store_obj \<Rightarrow> string \<Rightarrow> string option" where
  "browser_name_of c store store_type =
     (let n1 = c_browser c;
          n2 = (if \<not> str_truthy n1
                then (case s_default_browser_name store of Some d \<Rightarrow> d | None \<Rightarrow> n1)
                else n1);
          n3 = (if \<not> str_truthy n2 then Some store_type else n2)
      in n3)"

text \<open>
  The browser class is called with the keywords \<^verbatim>\<open>cube\<close>, \<^verbatim>\<open>store\<close>,
  \<^verbatim>\<open>locale\<close>, \<^verbatim>\<open>calendar\<close> and \<^verbatim>\<open>naming\<close> and with \<^verbatim>\<open>**settings\<close>: a
  setting under one of these names is a second value for that keyword, a
  \<^verbatim>\<open>TypeError\<close> of the call.
\<close>

definition keyword_clash :: "jdict \<Rightarrow> bool" where
  "keyword_clash settings =
     (map_of settings ''cube'' \<noteq> None \<or> map_of settings ''store'' \<noteq> None
      \<or> map_of settings ''locale'' \<noteq> None \<or> map_of settings ''calendar'' \<noteq> None
      \<or> map_of settings ''naming'' \<noteq> None)"

text \<open>
  The second half of \<^verbatim>\<open>browser\<close>, from the options to the browser instance, for
  the cube \<open>c\<close> at address \<open>a\<close> and the live store \<open>store\<close> at address \<open>sa\<close>.
\<close>

definition construct_browser ::
  "env \<Rightarrow> workspace \<Rightarrow> addr \<Rightarrow> cube_obj \<Rightarrow> addr \<Rightarrow> store_obj \<Rightarrow> string \<Rightarrow> jdict
     \<Rightarrow> string option \<Rightarrow> error + browser_obj"
where
  "construct_browser e ws a c sa store store_type store_info locale =
     (let cube_options = browser_options_of ws c;
          options = dict_update store_info cube_options;
          browser_name = browser_name_of c store store_type
      in (case browser_name of
            None \<Rightarrow> Inl ConfigurationError
          | Some bn \<Rightarrow>
              (if bn = [] then Inl ConfigurationError
               else
                 (case concrete_extension (browser_ext e) (CStr bn) of
                    Inl err \<Rightarrow> Inl err
                  | Inr cls \<Rightarrow>
                      (let options1 = AList.delete ''url'' options;
                           naming_name = (case map_of options1 ''naming'' of
                                            None \<Rightarrow> CStr ''default''
                                          | Some v \<Rightarrow> v);
                           options2 = AList.delete ''naming'' options1
                       in (case naming_name of
                             CDict d \<Rightarrow> Inl TypeError
                           | CStr nn \<Rightarrow>
                               (case bc_distill_settings cls options2 of
                                  Inl m \<Rightarrow> Inl (ExtError m)
                                | Inr settings \<Rightarrow>
                                    (if keyword_clash settings then Inl TypeError
                                     else
                                       Inr \<lparr>b_class = bn, b_cube = a, b_store = sa,
                                            b_locale = locale, b_calendar = calendar ws,
                                            b_naming = map_option (distill_naming e)
                                                         (namings ws nn),
                                            b_settings = settings\<rparr>))))))))"

definition browser_of_cube ::
  "env \<Rightarrow> workspace \<Rightarrow> addr \<Rightarrow> string option \<Rightarrow> (error + browser_obj) \<times> workspace"
where
  "browser_of_cube e ws a locale0 =
     (case deref (cube_heap ws) a of
        None \<Rightarrow> (Inl InvalidReference, ws)
      | Some c \<Rightarrow>
          (case c_store c of
             LiveStore h \<Rightarrow> (Inl AssertionError, ws)
           | _ \<Rightarrow>
               (let locale = (if str_truthy locale0 then locale0 else c_locale c);
                    store_name = (case c_store c of
                                    StoreName s \<Rightarrow> (if s \<noteq> [] then s else ''default'')
                                  | _ \<Rightarrow> ''default'')
                in (case get_store e ws (Some store_name) of
                      (Inl err, ws1) \<Rightarrow> (Inl err, ws1)
                    | (Inr sa, ws1) \<Rightarrow>
                        (case store_infos ws1 store_name of
                           None \<Rightarrow> (Inl KeyError, ws1)
                         | Some (info_type, store_info) \<Rightarrow>
                             (case deref (store_heap ws1) sa of
                                None \<Rightarrow> (Inl InvalidReference, ws1)
                              | Some store \<Rightarrow>
                                  (case s_extension_name store of
                                     None \<Rightarrow> (Inl AssertionError, ws1)
                                   | Some store_type \<Rightarrow>
                                       (construct_browser e ws1 a c sa store store_type
                                          store_info locale, ws1))))))))"

text \<open>
  A string is resolved first, by \<^verbatim>\<open>self.cube(cube, identity=identity)\<close>: the locale
  of that call is the default \<^verbatim>\<open>None\<close>.
\<close>

definition browser ::
  "env \<Rightarrow> workspace \<Rightarrow> cube_arg \<Rightarrow> string option \<Rightarrow> py_value
     \<Rightarrow> (error + browser_obj) \<times> workspace"
where
  "browser e ws cube0 locale identity =
     (case cube0 of
        CubeRef r \<Rightarrow>
          (case cube e ws (PyStr r) identity None of
             (Inl err, ws1) \<Rightarrow> (Inl err, ws1)
           | (Inr a, ws1) \<Rightarrow> browser_of_cube e ws1 a locale)
      | CubeObject a \<Rightarrow> browser_of_cube e ws a locale)"

section \<open>Invariants and a small workspace\<close>

text \<open>Every cached address denotes a cube object of the heap.\<close>

definition cache_valid :: "workspace \<Rightarrow> bool" where
  "cache_valid ws = (\<forall>k a. cubes ws k = Some a \<longrightarrow> a < length (cube_heap ws))"

text \<open>
  A workspace with one store description (\<open>default\<close>, of type \<open>sql\<close>) and one
  provider in the root namespace, which declares the cube \<open>sales\<close>.
\<close>

definition example_cube :: cube_obj where
  "example_cube =
     \<lparr>c_name = ''sales'', c_basename = ''sales'', c_namespace = None, c_store = NoStore,
      c_browser = None, c_browser_options = [], c_locale = Some ''en'',
      c_label = Some ''Sales'', c_description = None\<rparr>"

definition example_provider :: provider where
  "example_provider =
     \<lparr>p_store = Some ''default'', p_bound = None, p_requires_store = Some False,
      p_cube = (\<lambda>basename locale ns.
                  if basename = ''sales'' then Inr example_cube else Inl ''no such cube'')\<rparr>"

definition example_desc :: cube_desc where
  "example_desc = \<lparr>d_name = ''sales'', d_label = Some ''Sales'', d_category = None, d_info = []\<rparr>"

definition example_store_factory :: store_factory where
  "example_store_factory =
     \<lparr>sf_related_model_provider = None,
      sf_create_with_dict = (\<lambda>options.
         Inr \<lparr>s_extension_name = Some ''sql'', s_default_browser_name = None,
              s_options = options\<rparr>)\<rparr>"

definition example_env :: env where
  "example_env =
     \<lparr>store_ext = (\<lambda>t. if t = ''sql'' then Some example_store_factory else None),
      provider_ext = (\<lambda>n. if n = ''static'' then Some (\<lambda>md. Inr example_provider) else None),
      browser_ext = (\<lambda>n. if n = ''sql'' then Some \<lparr>bc_distill_settings = Inr\<rparr> else None),
      read_model_metadata = (\<lambda>path. Inl ''unreadable''),
      find_cube = (\<lambda>t r. case ns_providers t of
                            ProviderObject p # ps \<Rightarrow>
                              if r = ''sales'' then Some ([], p, r) else None
                          | _ \<Rightarrow> None),
      ns_list_cubes = (\<lambda>t. case ns_providers t of [] \<Rightarrow> [] | p # ps \<Rightarrow> [example_desc]),
      translation_lookup = (\<lambda>t ns locale. []),
      object_localization = (\<lambda>t domain name. \<lparr>l_label = None, l_description = None\<rparr>),
      distill_naming = (\<lambda>d. d),
      split_path = (\<lambda>s. [s])\<rparr>"

definition example_workspace :: workspace where
  "example_workspace =
     \<lparr>store_infos = [''default'' \<mapsto> (CStr ''sql'', [])],
      stores = Map.empty,
      namespace = Namespace [ProviderObject example_provider] [] [],
      authorizer = None,
      cubes = Map.empty,
      browser_options = [],
      namings = Map.empty,
      calendar = (None, 0),
      models_dir = ''./.'',
      cube_heap = [],
      store_heap = []\<rparr>"

text \<open>An authorizer that approves every cube for the identity \<open>admin\<close> and none otherwise.\<close>

definition example_authorizer :: "py_value \<Rightarrow> string list \<Rightarrow> string list" where
  "example_authorizer identity names = (if identity = PyStr ''admin'' then names else [])"

definition guarded_workspace :: workspace where
  "guarded_workspace = example_workspace\<lparr>authorizer := Some example_authorizer\<rparr>"

text \<open>
  Every cached cube carries the reference it is cached under as its name, has a
  namespace, and has no live store in its \<^verbatim>\<open>store\<close> field.
\<close>

definition cache_stamped :: "workspace \<Rightarrow> bool" where
  "cache_stamped ws =
     (\<forall>r i l a. cubes ws (r, i, l) = Some a \<longrightarrow>
        (\<exists>c. deref (cube_heap ws) a = Some c \<and> c_name c = r \<and> c_namespace c \<noteq> None
             \<and> (\<forall>h. c_store c \<noteq> LiveStore h)))"


text \<open>The example workspace after its default store has been opened.\<close>

definition opened_workspace :: workspace where
  "opened_workspace =
     example_workspace\<lparr>store_heap := [\<lparr>s_extension_name = Some ''sql'',
          s_default_browser_name = None, s_options = []\<rparr>], stores := [''default'' \<mapsto> 0]\<rparr>"

text \<open>
  The providers of the namespace at a path (none when there is no such namespace), and
  the statement that a provider has been registered there: the namespace exists in the
  new tree and its provider list is the old one with the provider appended.
\<close>

definition providers_at :: "ns_tree \<Rightarrow> ns_path \<Rightarrow> provider_value list" where
  "providers_at t path = (case ns_find t path of None \<Rightarrow> [] | Some n \<Rightarrow> ns_providers n)"

definition registered_in :: "ns_tree \<Rightarrow> ns_tree \<Rightarrow> ns_path \<Rightarrow> provider_value \<Rightarrow> bool" where
  "registered_in old new path p =
     (ns_find new path \<noteq> None \<and> providers_at new path = providers_at old path @ [p])"

text \<open>Registered there and nowhere else: at every other path the providers are as before.\<close>

definition registered_only_in ::
  "ns_tree \<Rightarrow> ns_tree \<Rightarrow> ns_path \<Rightarrow> provider_value \<Rightarrow> bool"
where
  "registered_only_in old new path p =
     (registered_in old new path p
      \<and> (\<forall>q. q \<noteq> path \<longrightarrow> providers_at new q = providers_at old q))"

definition found_or_empty :: "ns_tree \<Rightarrow> ns_path \<Rightarrow> ns_tree" where
  "found_or_empty t path = (case ns_find t path of None \<Rightarrow> empty_namespace | Some n \<Rightarrow> n)"

text \<open>The example workspace with a second store description, \<open>warehouse\<close>.\<close>

definition two_store_workspace :: workspace where
  "two_store_workspace =
     example_workspace\<lparr>store_infos := [''default'' \<mapsto> (CStr ''sql'', []),
                                          ''warehouse'' \<mapsto> (CStr ''sql'', [])]\<rparr>"

section \<open>Resolution of a cube\<close>

lemma cube_example:
  "cube example_env example_workspace (PyStr ''sales'') PyNone None
     = (Inr 0, snd (cube example_env example_workspace (PyStr ''sales'') PyNone None))"
proof -
  have "fst (cube example_env example_workspace (PyStr ''sales'') PyNone None) = Inr 0"
    by (simp add: cube_def alloc_def example_env_def example_workspace_def example_provider_def
          stamp_def Let_def)
  then show ?thesis by (metis prod.collapse)
qed

lemma cache_valid_example: "cache_valid example_workspace"
  by (simp add: cache_valid_def example_workspace_def)

lemma cube_denied_iff_empty:
  assumes "authorizer ws = Some auth"
  shows "fst (cube e ws (PyStr r) i l) = Inl NotAuthorized \<longleftrightarrow> auth i [r] = []"
  using assms
  by (auto simp: cube_def alloc_def Let_def split: option.splits sum.splits list.splits prod.splits)

lemma cube_denied_state:
  assumes "authorizer ws = Some auth" and "auth i [r] = []"
  shows "cube e ws (PyStr r) i l = (Inl NotAuthorized, ws)"
  using assms by (simp add: cube_def alloc_def)

text \<open>
  A successful call either found the cube in the cache and changed nothing, or it
  missed, created the object at an address beyond the old heap and cached it.
\<close>

lemma cube_result_cases:
  assumes "cube e ws (PyStr r) i l = (Inr a, ws1)"
  shows "(cubes ws (r, i, l) = Some a \<and> ws1 = ws)
       \<or> (cubes ws (r, i, l) = None \<and> length (cube_heap ws) \<le> a \<and> a < length (cube_heap ws1)
          \<and> cubes ws1 = (cubes ws)((r, i, l) \<mapsto> a)
          \<and> authorizer ws1 = authorizer ws \<and> namespace ws1 = namespace ws)"
  using assms
  by (auto simp: cube_def alloc_def Let_def split: option.splits sum.splits list.splits prod.splits if_splits)

lemma cube_cached_again:
  assumes "cube e ws (PyStr r) i l = (Inr a, ws1)"
  shows "cube e ws1 (PyStr r) i l = (Inr a, ws1)"
proof -
  have na: "\<not> (case authorizer ws of None \<Rightarrow> False | Some auth \<Rightarrow> auth i [r] = [])"
    using assms by (auto simp: cube_def alloc_def split: if_splits)
  from cube_result_cases[OF assms]
  have c: "cubes ws1 (r, i, l) = Some a" and au: "authorizer ws1 = authorizer ws"
    by auto
  show ?thesis using na c au by (simp add: cube_def alloc_def)
qed

lemma cube_fresh_address:
  assumes "cube e ws (PyStr r) i l = (Inr b, ws2)" and "cubes ws (r, i, l) = None"
  shows "length (cube_heap ws) \<le> b"
  using cube_result_cases[OF assms(1)] assms(2) by auto

lemma cube_keeps_valid:
  assumes "cache_valid ws" and "cube e ws (PyStr r) i l = (Inr a, ws1)"
  shows "cache_valid ws1"
proof -
  from cube_result_cases[OF assms(2)] show ?thesis
  proof
    assume "cubes ws (r, i, l) = Some a \<and> ws1 = ws"
    with assms(1) show ?thesis by simp
  next
    assume h: "cubes ws (r, i, l) = None \<and> length (cube_heap ws) \<le> a
          \<and> a < length (cube_heap ws1) \<and> cubes ws1 = (cubes ws)((r, i, l) \<mapsto> a)
          \<and> authorizer ws1 = authorizer ws \<and> namespace ws1 = namespace ws"
    then have le: "length (cube_heap ws) \<le> length (cube_heap ws1)" by simp
    show ?thesis
      unfolding cache_valid_def
    proof (intro allI impI)
      fix k a'
      assume c: "cubes ws1 k = Some a'"
      show "a' < length (cube_heap ws1)"
      proof (cases "k = (r, i, l)")
        case True
        with c h show ?thesis by simp
      next
        case False
        with c h have "cubes ws k = Some a'" by simp
        with assms(1) have "a' < length (cube_heap ws)"
          unfolding cache_valid_def by blast
        with le show ?thesis by simp
      qed
    qed
  qed
qed

lemma cache_valid_flush: "cache_valid (flush_lookup_cache ws)"
  by (simp add: cache_valid_def flush_lookup_cache_def)

lemma cube_valid_address:
  assumes "cache_valid ws" and "cube e ws (PyStr r) i l = (Inr a, ws1)"
  shows "a < length (cube_heap ws1)"
  using cube_result_cases[OF assms(2)] assms(1) by (auto simp: cache_valid_def)

text \<open>
  Resolution reads the authorizer and the namespace tree only: where it succeeded on a
  cache miss, it succeeds from any state that agrees on those two and misses as well.
\<close>

lemma cube_miss_total:
  assumes "cube e ws (PyStr r) i l = (Inr a, ws1)" and "cubes ws (r, i, l) = None"
    and "cubes ws' (r, i, l) = None" and "authorizer ws' = authorizer ws"
    and "namespace ws' = namespace ws"
  shows "\<exists>b ws2. cube e ws' (PyStr r) i l = (Inr b, ws2)"
  using assms
  by (auto simp: cube_def alloc_def Let_def split: option.splits sum.splits list.splits prod.splits if_splits)

text \<open>
  C1. With an authorizer configured, \<^verbatim>\<open>cube(ref, identity, locale)\<close> asks it about
  \<open>identity\<close> and the one-element list \<open>[ref]\<close>. The authorizer returns a subset of what
  it was asked about; the call fails with \<open>NotAuthorized\<close> exactly when \<open>ref\<close> is not in
  that subset. On that failure the workspace is returned as it was, whatever its cache
  and its namespace tree hold: the cache is neither read nor written and nothing is
  resolved.
\<close>

theorem cube_not_authorized:
  assumes "authorizer ws = Some auth" and "set (auth i [r]) \<subseteq> {r}"
  shows "(fst (cube e ws (PyStr r) i l) = Inl NotAuthorized \<longleftrightarrow> r \<notin> set (auth i [r]))
       \<and> (r \<notin> set (auth i [r]) \<longrightarrow> cube e ws (PyStr r) i l = (Inl NotAuthorized, ws))"
proof -
  have eq: "r \<notin> set (auth i [r]) \<longleftrightarrow> auth i [r] = []"
    using assms(2) by (cases "auth i [r]") auto
  show ?thesis
    using cube_denied_iff_empty[OF assms(1)] cube_denied_state[OF assms(1)] eq by metis
qed

theorem cube_not_authorized_witness:
  "authorizer guarded_workspace = Some example_authorizer
   \<and> set (example_authorizer PyNone [''sales'']) \<subseteq> {''sales''}
   \<and> ''sales'' \<notin> set (example_authorizer PyNone [''sales''])
   \<and> cube example_env guarded_workspace (PyStr ''sales'') PyNone None
       = (Inl NotAuthorized, guarded_workspace)"
proof -
  have h1: "authorizer guarded_workspace = Some example_authorizer"
    by (simp add: guarded_workspace_def)
  have h2: "set (example_authorizer PyNone [''sales'']) \<subseteq> {''sales''}"
    by (simp add: example_authorizer_def)
  have h3: "''sales'' \<notin> set (example_authorizer PyNone [''sales''])"
    by (simp add: example_authorizer_def)
  from cube_not_authorized[OF h1 h2, of example_env None] h1 h2 h3 show ?thesis by blast
qed

text \<open>
  C2. Two consecutive calls of \<^verbatim>\<open>cube\<close> with the same arguments return the same
  object: the second call returns the address the first one returned and changes
  nothing. After \<^verbatim>\<open>flush_lookup_cache\<close> a call with the same arguments returns an
  object that did not exist before, so not the one returned earlier; and where the first
  call resolved the cube (a cache miss), the call after the flush succeeds.
\<close>

theorem cube_cached_until_flush:
  assumes "cache_valid ws" and "cube e ws (PyStr r) i l = (Inr a, ws1)"
  shows "cube e ws1 (PyStr r) i l = (Inr a, ws1)
       \<and> (\<forall>b ws2. cube e (flush_lookup_cache ws1) (PyStr r) i l = (Inr b, ws2)
             \<longrightarrow> b \<noteq> a \<and> length (cube_heap ws1) \<le> b)
       \<and> (cubes ws (r, i, l) = None
             \<longrightarrow> (\<exists>b ws2. cube e (flush_lookup_cache ws1) (PyStr r) i l = (Inr b, ws2)))"
proof (intro conjI allI impI)
  show "cube e ws1 (PyStr r) i l = (Inr a, ws1)"
    by (rule cube_cached_again[OF assms(2)])
next
  fix b ws2
  assume h: "cube e (flush_lookup_cache ws1) (PyStr r) i l = (Inr b, ws2)"
  have "length (cube_heap (flush_lookup_cache ws1)) \<le> b"
    by (rule cube_fresh_address[OF h]) (simp add: flush_lookup_cache_def)
  then show "length (cube_heap ws1) \<le> b"
    by (simp add: flush_lookup_cache_def)
  with cube_valid_address[OF assms] show "b \<noteq> a" by simp
next
  assume m: "cubes ws (r, i, l) = None"
  from cube_result_cases[OF assms(2)] m
  have "authorizer ws1 = authorizer ws" and "namespace ws1 = namespace ws"
    by auto
  then show "\<exists>b ws2. cube e (flush_lookup_cache ws1) (PyStr r) i l = (Inr b, ws2)"
    by (intro cube_miss_total[OF assms(2) m]) (simp_all add: flush_lookup_cache_def)
qed

theorem cube_cached_until_flush_witness:
  "cache_valid example_workspace
   \<and> fst (cube example_env example_workspace (PyStr ''sales'') PyNone None) = Inr 0
   \<and> cube example_env (snd (cube example_env example_workspace (PyStr ''sales'') PyNone None))
        (PyStr ''sales'') PyNone None
       = (Inr 0, snd (cube example_env example_workspace (PyStr ''sales'') PyNone None))
   \<and> (\<exists>b ws2. cube example_env
                 (flush_lookup_cache
                    (snd (cube example_env example_workspace (PyStr ''sales'') PyNone None)))
                 (PyStr ''sales'') PyNone None = (Inr b, ws2) \<and> b \<noteq> 0)"
proof -
  have m: "cubes example_workspace (''sales'', PyNone, None) = None"
    by (simp add: example_workspace_def)
  from cube_cached_until_flush[OF cache_valid_example cube_example] m cache_valid_example
    cube_example
  show ?thesis by (metis fst_conv)
qed

text \<open>
  C9 as stated: a reference that is not a string makes \<^verbatim>\<open>cube\<close> fail with
  \<open>ArgumentError\<close>. The function raises \<open>TypeError\<close>.
\<close>

theorem cube_non_string_not_argument_error:
  "fst (cube example_env example_workspace (PyInt 3) PyNone None) \<noteq> Inl ArgumentError"
  by (simp add: cube_def alloc_def)

text \<open>
  C9, amended. For every value passed as the reference that is not a string,
  \<^verbatim>\<open>cube(ref, identity, locale)\<close> fails with \<open>TypeError\<close>, at once and with no
  change of the workspace.
\<close>

theorem cube_non_string_type_error:
  assumes "\<forall>s. ref \<noteq> PyStr s"
  shows "cube e ws ref i l = (Inl TypeError, ws)"
  using assms by (cases ref) (auto simp: cube_def alloc_def)

theorem cube_non_string_type_error_witness:
  "(\<forall>s. PyInt 3 \<noteq> PyStr s)
   \<and> cube example_env example_workspace (PyInt 3) PyNone None
       = (Inl TypeError, example_workspace)"
proof -
  have h: "\<forall>s. PyInt 3 \<noteq> PyStr s" by simp
  from cube_non_string_type_error[OF h] h show ?thesis by blast
qed

subsection \<open>Stamping\<close>






lemma cache_stamped_flush: "cache_stamped (flush_lookup_cache ws)"
  by (simp add: cache_stamped_def flush_lookup_cache_def)




section \<open>Listing cubes\<close>

lemma list_cubes_no_authorizer:
  "authorizer ws = None \<Longrightarrow> list_cubes e ws i = Inr (ns_list_cubes e (namespace ws))"
  by (simp add: list_cubes_def)

lemma lookup_all_names:
  "lookup_all m ns = Inr cs \<Longrightarrow>
     length cs = length ns \<and> (\<forall>k < length ns. m (ns ! k) = Some (cs ! k))"
proof (induction ns arbitrary: cs)
  case Nil
  then show ?case by simp
next
  case (Cons n ns)
  then show ?case
    by (auto split: option.splits sum.splits simp: nth_Cons split: nat.splits)
qed

lemma by_name_dict_name: "by_name_dict all n = Some c \<Longrightarrow> d_name c = n \<and> c \<in> set all"
  unfolding by_name_dict_def
  by (drule map_of_SomeD) auto

text \<open>
  The comprehension over the authorized names: each name is replaced by its description,
  and one name that is no key makes the whole a \<^verbatim>\<open>KeyError\<close>.
\<close>

lemma lookup_all_eq:
  "lookup_all m ns =
     (if list_all (\<lambda>n. m n \<noteq> None) ns then Inr (map (\<lambda>n. the (m n)) ns) else Inl KeyError)"
  by (induction ns) (auto split: option.splits)

lemma list_cubes_authorizer:
  assumes "authorizer ws = Some auth"
  shows "list_cubes e ws i =
           lookup_all (by_name_dict (ns_list_cubes e (namespace ws)))
             (auth i (map d_name (ns_list_cubes e (namespace ws))))"
  using assms by (simp add: list_cubes_def Let_def)

text \<open>
  With an authorizer, the names of the result are the list the authorizer returned, in
  its order, and every description is one the namespace tree listed.
\<close>

lemma list_cubes_authorized:
  assumes "authorizer ws = Some auth" and "list_cubes e ws i = Inr cs"
  shows "map d_name cs = auth i (map d_name (ns_list_cubes e (namespace ws)))
       \<and> set cs \<subseteq> set (ns_list_cubes e (namespace ws))"
proof -
  let ?all = "ns_list_cubes e (namespace ws)"
  let ?au = "auth i (map d_name ?all)"
  from assms have l: "lookup_all (by_name_dict ?all) ?au = Inr cs"
    by (simp add: list_cubes_def Let_def)
  from lookup_all_names[OF l] have len: "length cs = length ?au"
    and k: "\<forall>k < length ?au. by_name_dict ?all (?au ! k) = Some (cs ! k)" by auto
  have "map d_name cs = ?au"
    by (rule nth_equalityI) (use len k by_name_dict_name in auto)
  moreover have "set cs \<subseteq> set ?all"
    using len k by_name_dict_name by (fastforce simp: in_set_conv_nth)
  ultimately show ?thesis by simp
qed

text \<open>
  C5. \<^verbatim>\<open>list_cubes(identity)\<close> filters by the authorizer as the claim says (the two
  lemmas above), but \<^verbatim>\<open>cube_names(identity)\<close> does not pass its identity on: it
  returns the names of \<^verbatim>\<open>list_cubes(None)\<close>. With an authorizer that approves cubes
  for \<open>admin\<close> only, \<^verbatim>\<open>list_cubes("admin")\<close> returns the cube \<open>sales\<close> and
  \<^verbatim>\<open>cube_names("admin")\<close> returns no name.
\<close>

theorem cube_names_ignores_identity:
  "list_cubes example_env guarded_workspace (PyStr ''admin'') = Inr [example_desc]
   \<and> cube_names example_env guarded_workspace (PyStr ''admin'') = Inr []"
  by (simp add: cube_names_def list_cubes_def guarded_workspace_def example_workspace_def
        example_env_def example_authorizer_def Let_def by_name_dict_def)

section \<open>Live stores\<close>

lemma get_store_None_default: "get_store e ws None = get_store e ws (Some ''default'')"
  by (simp add: get_store_def alloc_def name_or_default_def)

lemma get_store_cached:
  assumes "stores ws (name_or_default n) = Some a"
  shows "get_store e ws n = (Inr a, ws)"
  using assms by (simp add: get_store_def alloc_def)

lemma get_store_unknown:
  assumes "stores ws (name_or_default n) = None"
    and "store_infos ws (name_or_default n) = None"
  shows "get_store e ws n = (Inl ConfigurationError, ws)"
  using assms by (simp add: get_store_def alloc_def)

lemma get_store_constructs:
  assumes "stores ws (name_or_default n) = None"
    and "store_infos ws (name_or_default n) = Some (t, options)"
    and "concrete_extension (store_ext e) t = Inr ext"
    and "sf_create_with_dict ext options = Inr s"
  shows "get_store e ws n =
           (Inr (length (store_heap ws)),
            ws\<lparr>store_heap := store_heap ws @ [s],
               stores := (stores ws)(name_or_default n \<mapsto> length (store_heap ws))\<rparr>)"
  using assms by (simp add: get_store_def alloc_def)

lemma get_store_result:
  assumes "get_store e ws n = (Inr a, ws1)"
  shows "stores ws1 (name_or_default n) = Some a"
  using assms
  by (auto simp: get_store_def alloc_def Let_def split: option.splits sum.splits prod.splits)

lemma get_store_twice:
  assumes "get_store e ws n = (Inr a, ws1)"
  shows "get_store e ws1 n = (Inr a, ws1)"
  using get_store_result[OF assms] by (rule get_store_cached)

lemma get_store_keeps_cubes:
  assumes "get_store e ws n = (res, ws1)"
  shows "cubes ws1 = cubes ws \<and> cube_heap ws1 = cube_heap ws \<and> store_infos ws1 = store_infos ws
       \<and> namespace ws1 = namespace ws \<and> authorizer ws1 = authorizer ws"
  using assms
  by (auto simp: get_store_def alloc_def Let_def split: option.splits sum.splits prod.splits)

text \<open>
  C6. \<^verbatim>\<open>get_store(name)\<close>, with the name defaulting to \<open>default\<close>: a cached live store
  is returned and nothing changes; with no cached store and no description the call
  fails with \<open>ConfigurationError\<close>; with a description whose type resolves and whose
  store class constructs a store, the new store is put in the heap, cached under the
  name and returned. A second call after a successful one returns the same address and
  constructs nothing.
\<close>

theorem get_store_cached_or_constructed:
  "(stores ws (name_or_default n) = Some a \<longrightarrow> get_store e ws n = (Inr a, ws))
   \<and> (stores ws (name_or_default n) = None \<and> store_infos ws (name_or_default n) = None
        \<longrightarrow> get_store e ws n = (Inl ConfigurationError, ws))
   \<and> (stores ws (name_or_default n) = None
        \<and> store_infos ws (name_or_default n) = Some (t, options)
        \<and> concrete_extension (store_ext e) t = Inr ext
        \<and> sf_create_with_dict ext options = Inr s
        \<longrightarrow> get_store e ws n =
              (Inr (length (store_heap ws)),
               ws\<lparr>store_heap := store_heap ws @ [s],
                  stores := (stores ws)(name_or_default n \<mapsto> length (store_heap ws))\<rparr>))
   \<and> (get_store e ws n = (Inr a', ws1) \<longrightarrow> get_store e ws1 n = (Inr a', ws1))
   \<and> get_store e ws None = get_store e ws (Some ''default'')"
proof (intro conjI impI)
  show "get_store e ws None = get_store e ws (Some ''default'')"
    by (rule get_store_None_default)
qed (auto intro: get_store_cached get_store_unknown get_store_constructs get_store_twice)

theorem get_store_cached_or_constructed_witness:
  "stores example_workspace (name_or_default None) = None
   \<and> store_infos example_workspace (name_or_default None) = Some (CStr ''sql'', [])
   \<and> concrete_extension (store_ext example_env) (CStr ''sql'') = Inr example_store_factory
   \<and> get_store example_env example_workspace None = (Inr 0, opened_workspace)
   \<and> stores opened_workspace (name_or_default None) = Some 0
   \<and> get_store example_env opened_workspace None = (Inr 0, opened_workspace)
   \<and> stores example_workspace (name_or_default (Some ''other'')) = None
   \<and> store_infos example_workspace (name_or_default (Some ''other'')) = None
   \<and> get_store example_env example_workspace (Some ''other'')
       = (Inl ConfigurationError, example_workspace)"
proof -
  have a1: "stores example_workspace (name_or_default None) = None"
    by (simp add: example_workspace_def)
  have a2: "store_infos example_workspace (name_or_default None) = Some (CStr ''sql'', [])"
    by (simp add: example_workspace_def name_or_default_def)
  have a3: "concrete_extension (store_ext example_env) (CStr ''sql'') = Inr example_store_factory"
    by (simp add: concrete_extension_def example_env_def)
  have a4: "sf_create_with_dict example_store_factory [] =
              Inr \<lparr>s_extension_name = Some ''sql'', s_default_browser_name = None, s_options = []\<rparr>"
    by (simp add: example_store_factory_def)
  have a5: "example_workspace\<lparr>store_heap := store_heap example_workspace
                @ [\<lparr>s_extension_name = Some ''sql'', s_default_browser_name = None, s_options = []\<rparr>],
              stores := (stores example_workspace)(name_or_default None \<mapsto> length (store_heap example_workspace))\<rparr>
            = opened_workspace"
    by (simp add: opened_workspace_def example_workspace_def name_or_default_def)
  have b1: "stores opened_workspace (name_or_default None) = Some 0"
    by (simp add: opened_workspace_def name_or_default_def)
  have c1: "stores example_workspace (name_or_default (Some ''other'')) = None"
    by (simp add: example_workspace_def)
  have c2: "store_infos example_workspace (name_or_default (Some ''other'')) = None"
    by (simp add: example_workspace_def name_or_default_def)
  note t = get_store_cached_or_constructed[of example_workspace None 0 example_env
            "CStr ''sql''" "[]" example_store_factory
            "\<lparr>s_extension_name = Some ''sql'', s_default_browser_name = None, s_options = []\<rparr>"
            0 opened_workspace]
  from t a1 a2 a3 a4 have
    "get_store example_env example_workspace None =
       (Inr (length (store_heap example_workspace)),
        example_workspace\<lparr>store_heap := store_heap example_workspace
                @ [\<lparr>s_extension_name = Some ''sql'', s_default_browser_name = None, s_options = []\<rparr>],
              stores := (stores example_workspace)(name_or_default None \<mapsto> length (store_heap example_workspace))\<rparr>)"
    by blast
  moreover have "length (store_heap example_workspace) = 0"
    by (simp add: example_workspace_def)
  ultimately have g1: "get_store example_env example_workspace None = (Inr 0, opened_workspace)"
    using a5 by simp
  from t g1 have g2: "get_store example_env opened_workspace None = (Inr 0, opened_workspace)"
    by blast
  have g3: "get_store example_env example_workspace (Some ''other'')
       = (Inl ConfigurationError, example_workspace)"
    using get_store_cached_or_constructed[of example_workspace "Some ''other''" _ example_env] c1 c2
    by blast
  show ?thesis using a1 a2 a3 b1 c1 c2 g1 g2 g3 by blast
qed

section \<open>Browsers\<close>

lemma browser_of_cube_keeps_cubes:
  assumes "browser_of_cube e ws a l = (res, ws1)"
  shows "cubes ws1 = cubes ws \<and> cube_heap ws1 = cube_heap ws"
  using assms
  by (auto simp: browser_of_cube_def Let_def dest: get_store_keeps_cubes
           split: option.splits sum.splits prod.splits store_field.splits)

lemma browser_of_cube_result:
  assumes "browser_of_cube e ws a l = (Inr b, ws1)"
  shows "\<exists>c. deref (cube_heap ws) a = Some c \<and> b_cube b = a
           \<and> b_locale b = (if str_truthy l then l else c_locale c)"
  using assms
  by (auto simp: browser_of_cube_def construct_browser_def Let_def
           split: option.splits sum.splits prod.splits store_field.splits if_splits cfg_value.splits)

lemma browser_example:
  "\<exists>b ws2. browser example_env example_workspace (CubeRef ''sales'') (Some ''fr'') PyNone = (Inr b, ws2)
     \<and> b_locale b = Some ''fr'' \<and> b_cube b = 0"
  by (simp add: browser_def browser_of_cube_def construct_browser_def cube_def get_store_def alloc_def
        name_or_default_def example_workspace_def example_env_def example_provider_def
        example_cube_def example_store_factory_def concrete_extension_def stamp_def deref_def
        store_field_of_def str_truthy_def browser_name_of_def browser_options_of_def
        keyword_clash_def Let_def)

text \<open>
  C10. \<^verbatim>\<open>browser(r, locale=l, identity=i)\<close> with a reference string resolves the
  cube by \<^verbatim>\<open>cube(r, identity=i)\<close> with no locale: a failure of that call is the
  failure of \<^verbatim>\<open>browser\<close>, the cube cache and the cube objects after the call are
  those after that call whatever \<open>l\<close> is, and no cache entry for a locale is touched.
  The browser is built on the cube that call returned, and \<open>l\<close> reaches only the
  browser instance, which gets \<open>l\<close>, or the locale of the resolved cube when \<open>l\<close> is
  absent (\<^verbatim>\<open>None\<close> or empty).
\<close>

theorem browser_resolves_without_locale:
  "(\<forall>b ws2. browser e ws (CubeRef r) l i = (Inr b, ws2) \<longrightarrow>
       (\<exists>a ws1 c. cube e ws (PyStr r) i None = (Inr a, ws1) \<and> b_cube b = a
           \<and> deref (cube_heap ws1) a = Some c
           \<and> b_locale b = (if str_truthy l then l else c_locale c)))
   \<and> (\<forall>err. fst (cube e ws (PyStr r) i None) = Inl err \<longrightarrow>
         browser e ws (CubeRef r) l i = (Inl err, snd (cube e ws (PyStr r) i None)))
   \<and> cubes (snd (browser e ws (CubeRef r) l i)) = cubes (snd (cube e ws (PyStr r) i None))
   \<and> cube_heap (snd (browser e ws (CubeRef r) l i)) = cube_heap (snd (cube e ws (PyStr r) i None))
   \<and> (\<forall>l'. cubes (snd (browser e ws (CubeRef r) l i)) (r, i, Some l') = cubes ws (r, i, Some l'))"
proof -
  obtain res ws1 where c: "cube e ws (PyStr r) i None = (res, ws1)" by (cases "cube e ws (PyStr r) i None")
  have keep: "cubes (snd (browser e ws (CubeRef r) l i)) = cubes ws1
      \<and> cube_heap (snd (browser e ws (CubeRef r) l i)) = cube_heap ws1"
  proof (cases res)
    case (Inl err) with c show ?thesis by (simp add: browser_def)
  next
    case (Inr a)
    obtain res2 ws2 where b: "browser_of_cube e ws1 a l = (res2, ws2)" by (cases "browser_of_cube e ws1 a l")
    from browser_of_cube_keeps_cubes[OF b] c Inr b show ?thesis by (simp add: browser_def)
  qed
  have slot: "\<forall>l'. cubes ws1 (r, i, Some l') = cubes ws (r, i, Some l')"
  proof (cases res)
    case (Inl err)
    with c have "ws1 = ws"
      by (auto simp: cube_def alloc_def Let_def split: option.splits sum.splits list.splits prod.splits if_splits)
    then show ?thesis by simp
  next
    case (Inr a)
    with c cube_result_cases[of e ws r i None a ws1] show ?thesis by auto
  qed
  have ok: "\<forall>b ws2. browser e ws (CubeRef r) l i = (Inr b, ws2) \<longrightarrow>
       (\<exists>a ws1 c. cube e ws (PyStr r) i None = (Inr a, ws1) \<and> b_cube b = a
           \<and> deref (cube_heap ws1) a = Some c
           \<and> b_locale b = (if str_truthy l then l else c_locale c))"
  proof (intro allI impI)
    fix b ws2 assume h: "browser e ws (CubeRef r) l i = (Inr b, ws2)"
    with c obtain a where a: "res = Inr a" "browser_of_cube e ws1 a l = (Inr b, ws2)"
      by (cases res) (auto simp: browser_def)
    from browser_of_cube_result[OF a(2)] c a(1)
    show "\<exists>a ws1 c. cube e ws (PyStr r) i None = (Inr a, ws1) \<and> b_cube b = a
           \<and> deref (cube_heap ws1) a = Some c
           \<and> b_locale b = (if str_truthy l then l else c_locale c)" by blast
  qed
  have err: "\<forall>err. fst (cube e ws (PyStr r) i None) = Inl err \<longrightarrow>
         browser e ws (CubeRef r) l i = (Inl err, snd (cube e ws (PyStr r) i None))"
    using c by (auto simp: browser_def)
  from ok err keep slot c show ?thesis by simp
qed

theorem browser_resolves_without_locale_witness:
  "\<exists>b ws2. browser example_env example_workspace (CubeRef ''sales'') (Some ''fr'') PyNone = (Inr b, ws2)
     \<and> b_cube b = 0 \<and> b_locale b = Some ''fr''
     \<and> cubes ws2 (''sales'', PyNone, None) = Some 0
     \<and> cubes ws2 (''sales'', PyNone, Some ''fr'') = None"
proof -
  from browser_example obtain b ws2 where
    b: "browser example_env example_workspace (CubeRef ''sales'') (Some ''fr'') PyNone = (Inr b, ws2)"
      "b_locale b = Some ''fr''" by blast
  note t = browser_resolves_without_locale[of example_env example_workspace "''sales''" "Some ''fr''" PyNone]
  from t b(1) cube_example have "b_cube b = 0" by auto
  moreover have "cubes ws2 = cubes (snd (cube example_env example_workspace (PyStr ''sales'') PyNone None))"
    using t b(1) by (metis snd_conv)
  then have "cubes ws2 (''sales'', PyNone, None) = Some 0"
    using cube_result_cases[OF cube_example] by (auto simp: example_workspace_def)
  moreover have "cubes ws2 (''sales'', PyNone, Some ''fr'') = None"
    using t b(1) by (metis snd_conv example_workspace_def workspace.select_convs(5))
  ultimately show ?thesis using b by blast
qed

section \<open>Flushing the cache\<close>

lemma cube_resolves:
  assumes "\<not> (case authorizer ws of None \<Rightarrow> False | Some auth \<Rightarrow> auth i [r] = [])"
    and "cubes ws (r, i, l) = None"
    and "find_cube e (namespace ws) r = Some (ns, p, bn)" and "p_cube p bn l ns = Inr c0"
  shows "\<exists>b ws2. cube e ws (PyStr r) i l = (Inr b, ws2)"
  using assms by (auto simp: cube_def alloc_def Let_def split: list.splits)

text \<open>
  C8. \<^verbatim>\<open>flush_lookup_cache()\<close> empties the cube cache and changes nothing else: the
  store descriptions, the live stores, the namespace tree and every other field stay as
  they were. So a store opens after the flush as before it, and a reference that the
  namespace tree resolves is resolved again after the flush with no registration in
  between.
\<close>

theorem flush_lookup_cache_frame:
  "cubes (flush_lookup_cache ws) = Map.empty
   \<and> store_infos (flush_lookup_cache ws) = store_infos ws
   \<and> stores (flush_lookup_cache ws) = stores ws
   \<and> store_heap (flush_lookup_cache ws) = store_heap ws
   \<and> namespace (flush_lookup_cache ws) = namespace ws
   \<and> authorizer (flush_lookup_cache ws) = authorizer ws
   \<and> browser_options (flush_lookup_cache ws) = browser_options ws
   \<and> namings (flush_lookup_cache ws) = namings ws
   \<and> calendar (flush_lookup_cache ws) = calendar ws
   \<and> models_dir (flush_lookup_cache ws) = models_dir ws
   \<and> cube_heap (flush_lookup_cache ws) = cube_heap ws
   \<and> fst (get_store e (flush_lookup_cache ws) n) = fst (get_store e ws n)
   \<and> (\<not> (case authorizer ws of None \<Rightarrow> False | Some auth \<Rightarrow> auth i [r] = [])
        \<and> find_cube e (namespace ws) r = Some (ns, p, bn) \<and> p_cube p bn l ns = Inr c0
        \<longrightarrow> (\<exists>b ws2. cube e (flush_lookup_cache ws) (PyStr r) i l = (Inr b, ws2)))"
proof -
  have g: "fst (get_store e (flush_lookup_cache ws) n) = fst (get_store e ws n)"
    by (auto simp: get_store_def alloc_def flush_lookup_cache_def Let_def split: option.splits sum.splits prod.splits)
  have r: "\<not> (case authorizer ws of None \<Rightarrow> False | Some auth \<Rightarrow> auth i [r] = [])
        \<and> find_cube e (namespace ws) r = Some (ns, p, bn) \<and> p_cube p bn l ns = Inr c0
        \<longrightarrow> (\<exists>b ws2. cube e (flush_lookup_cache ws) (PyStr r) i l = (Inr b, ws2))"
  proof
    assume h: "\<not> (case authorizer ws of None \<Rightarrow> False | Some auth \<Rightarrow> auth i [r] = [])
        \<and> find_cube e (namespace ws) r = Some (ns, p, bn) \<and> p_cube p bn l ns = Inr c0"
    show "\<exists>b ws2. cube e (flush_lookup_cache ws) (PyStr r) i l = (Inr b, ws2)"
      by (rule cube_resolves[where ns=ns and p=p and bn=bn and ?c0.0=c0])
         (use h in \<open>simp_all add: flush_lookup_cache_def\<close>)
  qed
  show ?thesis using g r by (simp add: flush_lookup_cache_def)
qed

theorem flush_lookup_cache_frame_witness:
  "cubes (flush_lookup_cache (snd (cube example_env example_workspace (PyStr ''sales'') PyNone None)))
      = Map.empty
   \<and> find_cube example_env (namespace example_workspace) ''sales'' = Some ([], example_provider, ''sales'')
   \<and> p_cube example_provider ''sales'' None [] = Inr example_cube
   \<and> (\<exists>b ws2. cube example_env (flush_lookup_cache example_workspace) (PyStr ''sales'') PyNone None
         = (Inr b, ws2))"
proof -
  have a: "\<not> (case authorizer example_workspace of None \<Rightarrow> False | Some auth \<Rightarrow> auth PyNone [''sales''] = [])"
    by (simp add: example_workspace_def)
  have f: "find_cube example_env (namespace example_workspace) ''sales'' = Some ([], example_provider, ''sales'')"
    by (simp add: example_env_def example_workspace_def)
  have p: "p_cube example_provider ''sales'' None [] = Inr example_cube"
    by (simp add: example_provider_def)
  from flush_lookup_cache_frame[of example_workspace example_env None PyNone "''sales''" "[]"
      example_provider "''sales''" None example_cube] a f p
  have "\<exists>b ws2. cube example_env (flush_lookup_cache example_workspace) (PyStr ''sales'') PyNone None
         = (Inr b, ws2)" by blast
  moreover from flush_lookup_cache_frame[of "snd (cube example_env example_workspace (PyStr ''sales'') PyNone None)"]
  have "cubes (flush_lookup_cache (snd (cube example_env example_workspace (PyStr ''sales'') PyNone None)))
      = Map.empty" by blast
  ultimately show ?thesis using f p by blast
qed

section \<open>Importing a model\<close>

lemma found_or_empty_empty: "found_or_empty empty_namespace path = empty_namespace"
  by (cases path) (simp_all add: found_or_empty_def empty_namespace_def)

lemma ns_find_ns_modify:
  "ns_find (ns_modify f path t) path = Some (f (found_or_empty t path))"
proof (induction path arbitrary: t)
  case Nil
  show ?case by (simp add: found_or_empty_def)
next
  case (Cons s ss)
  show ?case
  proof (cases "map_of (ns_namespaces t) s")
    case None
    then show ?thesis
      using Cons[of empty_namespace]
      by (simp add: map_add_def found_or_empty_def
            found_or_empty_empty[unfolded found_or_empty_def])
  next
    case (Some c)
    then show ?thesis
      using Cons[of c] by (simp add: update_conv' found_or_empty_def)
  qed
qed

lemma registered_in_modify:
  "registered_in t (ns_modify (add_provider p) path t) path p"
  by (simp add: registered_in_def providers_at_def ns_find_ns_modify add_provider_def
        found_or_empty_def empty_namespace_def split: option.splits)

lemma providers_at_empty: "providers_at empty_namespace q = []"
  by (cases q) (simp_all add: providers_at_def empty_namespace_def)

text \<open>A change that keeps the children of the target changes the providers nowhere else.\<close>

lemma providers_at_modify_other:
  assumes "\<And>n. ns_namespaces (f n) = ns_namespaces n" and "q \<noteq> path"
  shows "providers_at (ns_modify f path t) q = providers_at t q"
  using assms(2)
proof (induction path arbitrary: t q)
  case Nil
  then obtain s ss where q: "q = s # ss" by (cases q) auto
  show ?case by (simp add: q providers_at_def assms(1))
next
  case (Cons s ss)
  show ?case
  proof (cases q)
    case Nil
    then show ?thesis by (simp add: providers_at_def split: option.splits)
  next
    case q: (Cons s' ss')
    show ?thesis
    proof (cases "s' = s")
      case False
      then show ?thesis
        by (simp add: q providers_at_def update_conv' map_add_def split: option.splits)
    next
      case True
      with Cons.prems q have ne: "ss' \<noteq> ss" by simp
      show ?thesis
      proof (cases "map_of (ns_namespaces t) s")
        case None
        have "providers_at (ns_modify f ss empty_namespace) ss' = []"
          using Cons.IH[OF ne, of empty_namespace] by (simp add: providers_at_empty)
        then show ?thesis
          using None True by (simp add: q providers_at_def map_add_def)
      next
        case (Some c)
        have "providers_at (ns_modify f ss c) ss' = providers_at c ss'"
          by (rule Cons.IH[OF ne])
        then show ?thesis
          using Some True by (simp add: q providers_at_def update_conv')
      qed
    qed
  qed
qed

lemma registered_only_in_modify:
  "registered_only_in t (ns_modify (add_provider p) path t) path p"
proof -
  have k: "\<And>n. ns_namespaces (add_provider p n) = ns_namespaces n"
    by (simp add: add_provider_def)
  have "\<forall>q. q \<noteq> path \<longrightarrow>
          providers_at (ns_modify (add_provider p) path t) q = providers_at t q"
    using providers_at_modify_other[of "add_provider p", OF k] by blast
  with registered_in_modify[of t p path] show ?thesis
    unfolding registered_only_in_def by blast
qed

lemma registered_only_in_root: "registered_only_in t (add_provider p t) [] p"
  using registered_only_in_modify[of t p "[]"] by simp

lemma get_store_value_keeps:
  assumes "get_store_value e ws st = (res, ws1)"
  shows "namespace ws1 = namespace ws \<and> store_infos ws1 = store_infos ws"
  using assms
  by (auto simp: get_store_value_def dest: get_store_keeps_cubes
           split: option.splits cfg_value.splits if_splits)

lemma bind_store_keeps:
  assumes "bind_store e ws x st = (res, ws1)"
  shows "namespace ws1 = namespace ws \<and> store_infos ws1 = store_infos ws"
proof (cases x)
  case (ProviderDict d)
  with assms show ?thesis by (auto simp: bind_store_def split: if_splits)
next
  case (ProviderObject p)
  show ?thesis
  proof (cases "truthy_opt st \<or> p_requires_store p = Some True")
    case False
    with assms ProviderObject show ?thesis by (auto simp: bind_store_def)
  next
    case True
    obtain r ws' where g: "get_store_value e ws st = (r, ws')"
      by (cases "get_store_value e ws st")
    from assms ProviderObject True g have "ws1 = ws'"
      by (cases r) (auto simp: bind_store_def)
    with get_store_value_keeps[OF g] show ?thesis by simp
  qed
qed

lemma bind_store_result:
  assumes "bind_store e ws x0 st = (Inr x, ws1)"
  shows "x = x0 \<or> (\<exists>p a. x0 = ProviderObject p \<and> x = ProviderObject (bind p a))"
proof (cases x0)
  case (ProviderDict d)
  with assms show ?thesis by (auto simp: bind_store_def split: if_splits)
next
  case (ProviderObject p)
  show ?thesis
  proof (cases "truthy_opt st \<or> p_requires_store p = Some True")
    case False
    with assms ProviderObject show ?thesis by (auto simp: bind_store_def)
  next
    case True
    obtain r ws' where g: "get_store_value e ws st = (r, ws')"
      by (cases "get_store_value e ws st")
    from assms ProviderObject True g show ?thesis
      by (cases r) (auto simp: bind_store_def)
  qed
qed

lemma import_model_result:
  assumes "import_model e ws model provider store ns = (Inr (), ws1)"
  shows "\<exists>md x0 x target. model_metadata e ws model = Inr md
           \<and> model_provider e provider md = Inr x0
           \<and> (x = x0 \<or> (\<exists>p a. x0 = ProviderObject p \<and> x = ProviderObject (bind p a)))
           \<and> target_namespace e ns (effective_store store md) = Inr target
           \<and> namespace ws1 = ns_modify (add_provider x) target (namespace ws)"
proof -
  obtain md where md: "model_metadata e ws model = Inr md"
    using assms by (cases "model_metadata e ws model") (simp_all add: import_model_def)
  obtain x0 where x0: "model_provider e provider md = Inr x0"
    using assms md by (cases "model_provider e provider md") (simp_all add: import_model_def)
  let ?st = "effective_store store md"
  obtain r ws' where b: "bind_store e ws x0 ?st = (r, ws')"
    by (cases "bind_store e ws x0 ?st")
  from assms md x0 b obtain x where x: "r = Inr x"
    by (cases r) (simp_all add: import_model_def Let_def)
  obtain target where t: "target_namespace e ns ?st = Inr target"
    using assms md x0 b x
    by (cases "target_namespace e ns ?st") (simp_all add: import_model_def Let_def)
  from assms md x0 b x t
  have "ws1 = ws'\<lparr>namespace := ns_modify (add_provider x) target (namespace ws')\<rparr>"
    by (simp add: import_model_def Let_def)
  with bind_store_keeps[OF b]
  have "namespace ws1 = ns_modify (add_provider x) target (namespace ws)" by simp
  with md x0 t bind_store_result[OF b[unfolded x]] show ?thesis by blast
qed

lemma import_default:
  "fst (import_model example_env example_workspace None ProviderNone (Some ''default'') None) = Inr ()"
  by (simp add: import_model_def model_metadata_def model_provider_def metadata_provider_def
        construct_provider_def bind_store_def target_namespace_def
        concrete_extension_def effective_store_def str_truthy_def truthy_opt_def
        get_store_value_def get_store_def alloc_def name_or_default_def example_env_def
        example_workspace_def example_store_factory_def Let_def)

lemma import_warehouse:
  "fst (import_model example_env two_store_workspace None ProviderNone (Some ''warehouse'') None) = Inr ()"
  by (simp add: import_model_def model_metadata_def model_provider_def metadata_provider_def
        construct_provider_def bind_store_def target_namespace_def store_path_def
        concrete_extension_def effective_store_def str_truthy_def truthy_opt_def
        get_store_value_def get_store_def alloc_def name_or_default_def example_env_def
        example_workspace_def two_store_workspace_def example_store_factory_def Let_def)

lemma import_reports:
  "fst (import_model example_env two_store_workspace None ProviderNone (Some ''warehouse'')
          (Some (CStr ''reports''))) = Inr ()"
  by (simp add: import_model_def model_metadata_def model_provider_def metadata_provider_def
        construct_provider_def bind_store_def target_namespace_def store_path_def
        concrete_extension_def effective_store_def str_truthy_def truthy_opt_def
        get_store_value_def get_store_def alloc_def name_or_default_def example_env_def
        example_workspace_def two_store_workspace_def example_store_factory_def Let_def)

lemma collapse_unit: "fst x = Inr () \<Longrightarrow> x = (Inr (), snd x)"
  by (metis prod.collapse)

text \<open>
  C7. A successful \<^verbatim>\<open>import_model\<close> registers the resolved provider (bound to its
  store when it has one) in the namespace chosen so, and in no other: a namespace
  argument wins, with \<open>default\<close> meaning the root; without one (absent or empty), the
  root when the effective store name, \<^verbatim>\<open>store or model.get("store")\<close>, is exactly
  \<open>default\<close>, else the namespace named after the store, which exists afterwards whether
  or not it did before. With no store at all the path is empty and the root is the
  target. At every path but the chosen one the providers are those from before the call.
\<close>

theorem import_model_target_namespace:
  assumes "import_model e ws model provider store ns = (Inr (), ws1)"
  shows "\<exists>md x0 x. model_metadata e ws model = Inr md \<and> model_provider e provider md = Inr x0
           \<and> (x = x0 \<or> (\<exists>p a. x0 = ProviderObject p \<and> x = ProviderObject (bind p a)))
           \<and> (ns = Some (CStr ''default'')
                 \<longrightarrow> registered_only_in (namespace ws) (namespace ws1) [] x)
           \<and> (\<forall>n. ns = Some (CStr n) \<and> n \<noteq> [] \<and> n \<noteq> ''default''
                 \<longrightarrow> registered_only_in (namespace ws) (namespace ws1) (split_path e n) x)
           \<and> (\<not> truthy_opt ns \<and> effective_store store md = Some (CStr ''default'')
                 \<longrightarrow> registered_only_in (namespace ws) (namespace ws1) [] x)
           \<and> (\<forall>s. \<not> truthy_opt ns \<and> effective_store store md = Some (CStr s)
                    \<and> s \<noteq> [] \<and> s \<noteq> ''default''
                 \<longrightarrow> registered_only_in (namespace ws) (namespace ws1) (split_path e s) x)
           \<and> (\<not> truthy_opt ns \<and> \<not> truthy_opt (effective_store store md)
                 \<longrightarrow> registered_only_in (namespace ws) (namespace ws1) [] x)"
proof -
  from import_model_result[OF assms] obtain md x0 x target where
    r: "model_metadata e ws model = Inr md" "model_provider e provider md = Inr x0"
       "x = x0 \<or> (\<exists>p a. x0 = ProviderObject p \<and> x = ProviderObject (bind p a))"
       "target_namespace e ns (effective_store store md) = Inr target"
       "namespace ws1 = ns_modify (add_provider x) target (namespace ws)" by blast
  let ?st = "effective_store store md"
  have reg: "registered_only_in (namespace ws) (namespace ws1) target x"
    by (simp add: r(5) registered_only_in_modify)
  have c1: "ns = Some (CStr ''default'') \<Longrightarrow> target = []"
    using r(4) by (simp add: target_namespace_def truthy_opt_def)
  have c2: "\<And>n. ns = Some (CStr n) \<Longrightarrow> n \<noteq> [] \<Longrightarrow> n \<noteq> ''default'' \<Longrightarrow> target = split_path e n"
    using r(4) by (simp add: target_namespace_def truthy_opt_def)
  have c3: "\<not> truthy_opt ns \<Longrightarrow> ?st = Some (CStr ''default'') \<Longrightarrow> target = []"
    using r(4) by (simp add: target_namespace_def)
  have c4: "\<And>s. \<not> truthy_opt ns \<Longrightarrow> ?st = Some (CStr s) \<Longrightarrow> s \<noteq> [] \<Longrightarrow> s \<noteq> ''default''
               \<Longrightarrow> target = split_path e s"
    using r(4) by (simp add: target_namespace_def store_path_def)
  have c5: "\<not> truthy_opt ns \<Longrightarrow> \<not> truthy_opt ?st \<Longrightarrow> target = []"
    using r(4)
    by (auto simp: target_namespace_def store_path_def truthy_opt_def
             split: option.splits cfg_value.splits if_splits)
  have "(ns = Some (CStr ''default'')
                 \<longrightarrow> registered_only_in (namespace ws) (namespace ws1) [] x)
           \<and> (\<forall>n. ns = Some (CStr n) \<and> n \<noteq> [] \<and> n \<noteq> ''default''
                 \<longrightarrow> registered_only_in (namespace ws) (namespace ws1) (split_path e n) x)
           \<and> (\<not> truthy_opt ns \<and> ?st = Some (CStr ''default'')
                 \<longrightarrow> registered_only_in (namespace ws) (namespace ws1) [] x)
           \<and> (\<forall>s. \<not> truthy_opt ns \<and> ?st = Some (CStr s)
                    \<and> s \<noteq> [] \<and> s \<noteq> ''default''
                 \<longrightarrow> registered_only_in (namespace ws) (namespace ws1) (split_path e s) x)
           \<and> (\<not> truthy_opt ns \<and> \<not> truthy_opt ?st
                 \<longrightarrow> registered_only_in (namespace ws) (namespace ws1) [] x)"
  proof (intro conjI allI impI)
    assume "ns = Some (CStr ''default'')"
    from c1[OF this] reg show "registered_only_in (namespace ws) (namespace ws1) [] x" by simp
  next
    fix n assume "ns = Some (CStr n) \<and> n \<noteq> [] \<and> n \<noteq> ''default''"
    then have "target = split_path e n" using c2 by blast
    with reg show "registered_only_in (namespace ws) (namespace ws1) (split_path e n) x" by simp
  next
    assume "\<not> truthy_opt ns \<and> ?st = Some (CStr ''default'')"
    then have "target = []" using c3 by blast
    with reg show "registered_only_in (namespace ws) (namespace ws1) [] x" by simp
  next
    fix s assume "\<not> truthy_opt ns \<and> ?st = Some (CStr s) \<and> s \<noteq> [] \<and> s \<noteq> ''default''"
    then have "target = split_path e s" using c4 by blast
    with reg show "registered_only_in (namespace ws) (namespace ws1) (split_path e s) x" by simp
  next
    assume "\<not> truthy_opt ns \<and> \<not> truthy_opt ?st"
    then have "target = []" using c5 by blast
    with reg show "registered_only_in (namespace ws) (namespace ws1) [] x" by simp
  qed
  with r(1-3) show ?thesis by blast
qed

theorem import_model_target_namespace_witness:
  "import_model example_env example_workspace None ProviderNone (Some ''default'') None
      = (Inr (), snd (import_model example_env example_workspace None ProviderNone
                        (Some ''default'') None))
   \<and> (\<exists>x. registered_only_in (namespace example_workspace)
            (namespace (snd (import_model example_env example_workspace None ProviderNone
                               (Some ''default'') None))) [] x)
   \<and> (\<exists>x. registered_only_in (namespace two_store_workspace)
            (namespace (snd (import_model example_env two_store_workspace None ProviderNone
                               (Some ''warehouse'') None))) [''warehouse''] x)
   \<and> (\<exists>x. registered_only_in (namespace two_store_workspace)
            (namespace (snd (import_model example_env two_store_workspace None ProviderNone
                               (Some ''warehouse'') (Some (CStr ''reports''))))) [''reports''] x)
   \<and> providers_at
        (namespace (snd (import_model example_env two_store_workspace None ProviderNone
                           (Some ''warehouse'') (Some (CStr ''reports''))))) [''warehouse''] = []"
proof -
  have md: "\<And>ws. model_metadata example_env ws None = Inr []"
    by (simp add: model_metadata_def)
  have sp: "\<And>s. split_path example_env s = [s]" by (simp add: example_env_def)
  have e1: "effective_store (Some ''default'') [] = Some (CStr ''default'')"
    and e2: "effective_store (Some ''warehouse'') [] = Some (CStr ''warehouse'')"
    by (simp_all add: effective_store_def str_truthy_def)
  have n1: "\<not> truthy_opt None" by (simp add: truthy_opt_def)
  note h1 = collapse_unit[OF import_default]
  note h2 = collapse_unit[OF import_warehouse]
  note h3 = collapse_unit[OF import_reports]
  have w1: "\<exists>x. registered_only_in (namespace example_workspace)
            (namespace (snd (import_model example_env example_workspace None ProviderNone
                               (Some ''default'') None))) [] x"
  proof -
    from import_model_target_namespace[OF h1] obtain m and x :: provider_value where
      a: "model_metadata example_env example_workspace None = Inr m"
      and b: "\<not> truthy_opt None \<and> effective_store (Some ''default'') m = Some (CStr ''default'')
                 \<longrightarrow> registered_only_in (namespace example_workspace)
            (namespace (snd (import_model example_env example_workspace None ProviderNone
                               (Some ''default'') None))) [] x"
      by blast
    from a have "m = []" by (simp add: md)
    with b e1 n1 show ?thesis by blast
  qed
  have w2: "\<exists>x. registered_only_in (namespace two_store_workspace)
            (namespace (snd (import_model example_env two_store_workspace None ProviderNone
                               (Some ''warehouse'') None))) [''warehouse''] x"
  proof -
    from import_model_target_namespace[OF h2] obtain m and x :: provider_value where
      a: "model_metadata example_env two_store_workspace None = Inr m"
      and b: "\<forall>s. \<not> truthy_opt None \<and> effective_store (Some ''warehouse'') m = Some (CStr s)
                    \<and> s \<noteq> [] \<and> s \<noteq> ''default''
                 \<longrightarrow> registered_only_in (namespace two_store_workspace)
            (namespace (snd (import_model example_env two_store_workspace None ProviderNone
                               (Some ''warehouse'') None))) (split_path example_env s) x"
      by blast
    from a have "m = []" by (simp add: md)
    with b[rule_format, of "''warehouse''"] e2 n1 sp show ?thesis by auto
  qed
  have w3: "\<exists>x. registered_only_in (namespace two_store_workspace)
            (namespace (snd (import_model example_env two_store_workspace None ProviderNone
                               (Some ''warehouse'') (Some (CStr ''reports''))))) [''reports''] x"
  proof -
    from import_model_target_namespace[OF h3] obtain x :: provider_value where
      b: "\<forall>n. Some (CStr ''reports'') = Some (CStr n) \<and> n \<noteq> [] \<and> n \<noteq> ''default''
                 \<longrightarrow> registered_only_in (namespace two_store_workspace)
            (namespace (snd (import_model example_env two_store_workspace None ProviderNone
                               (Some ''warehouse'') (Some (CStr ''reports''))))) (split_path example_env n) x"
      by blast
    from b[rule_format, of "''reports''"] sp show ?thesis by auto
  qed
  have old: "providers_at (namespace two_store_workspace) [''warehouse''] = []"
    by (simp add: providers_at_def two_store_workspace_def example_workspace_def)
  from w3 obtain x where
    "registered_only_in (namespace two_store_workspace)
            (namespace (snd (import_model example_env two_store_workspace None ProviderNone
                               (Some ''warehouse'') (Some (CStr ''reports''))))) [''reports''] x"
    by blast
  then have "providers_at
        (namespace (snd (import_model example_env two_store_workspace None ProviderNone
                           (Some ''warehouse'') (Some (CStr ''reports''))))) [''warehouse'']
      = providers_at (namespace two_store_workspace) [''warehouse'']"
    unfolding registered_only_in_def by simp
  with old w1 w2 w3 h1 show ?thesis by simp
qed

section \<open>Registering a store\<close>

lemma concrete_extension_error: "concrete_extension reg t = Inl err \<Longrightarrow> err = ConfigurationError"
  by (auto simp: concrete_extension_def split: cfg_value.splits option.splits)

lemma import_model_keeps_infos:
  "store_infos (snd (import_model e ws model provider store ns)) = store_infos ws"
proof (cases "model_metadata e ws model")
  case (Inl err)
  then show ?thesis by (simp add: import_model_def)
next
  case md: (Inr md)
  show ?thesis
  proof (cases "model_provider e provider md")
    case (Inl err)
    with md show ?thesis by (simp add: import_model_def)
  next
    case x0: (Inr x0)
    let ?st = "effective_store store md"
    obtain r ws' where b: "bind_store e ws x0 ?st = (r, ws')"
      by (cases "bind_store e ws x0 ?st")
    from bind_store_keeps[OF b] have k: "store_infos ws' = store_infos ws" by simp
    show ?thesis
    proof (cases r)
      case (Inl err)
      with md x0 b k show ?thesis by (simp add: import_model_def Let_def)
    next
      case (Inr x)
      with md x0 b k show ?thesis
        by (cases "target_namespace e ns ?st") (simp_all add: import_model_def Let_def)
    qed
  qed
qed

lemma register_store_duplicate:
  "store_infos ws name \<noteq> None \<Longrightarrow> register_store e ws name t im config = (Inl ConfigurationError, ws)"
  by (simp add: register_store_def)

lemma register_store_dict_no_type:
  "map_of info ''type'' = None \<Longrightarrow> map_of info ''backend'' = None
     \<Longrightarrow> register_store_dict e ws name info = (Inl ConfigurationError, ws)"
  by (simp add: register_store_dict_def)

lemma register_store_unresolved:
  assumes "store_infos ws name = None" and "concrete_extension (store_ext e) t = Inl err"
  shows "register_store e ws name t im config =
           (Inl ConfigurationError,
            record_info ws name t
              (if im \<and> map_of config ''model'' \<noteq> None then AList.delete ''model'' config else config))"
  using assms concrete_extension_error[OF assms(2)]
  by (simp add: register_store_def Let_def)

lemma register_store_records:
  assumes "store_infos ws name = None"
  shows "store_infos (snd (register_store e ws name t im config)) =
           (store_infos ws)(name \<mapsto> (t,
              (case concrete_extension (store_ext e) t of
                 Inl err \<Rightarrow>
                   (if im \<and> map_of config ''model'' \<noteq> None then AList.delete ''model'' config
                    else config)
               | Inr cls \<Rightarrow>
                   AList.delete ''namespace'' (AList.delete ''model_provider''
                     (if im \<and> map_of config ''model'' \<noteq> None then AList.delete ''model'' config
                      else config)))))"
proof (cases "concrete_extension (store_ext e) t")
  case (Inl err)
  from register_store_unresolved[OF assms Inl] Inl show ?thesis
    by (simp add: record_info_def)
next
  case (Inr f)
  show ?thesis
    using assms Inr
    by (simp add: register_store_def Let_def import_model_keeps_infos record_info_def)
qed

text \<open>
  C4 as stated: a failed registration leaves \<^verbatim>\<open>store_infos\<close> unchanged. A
  registration whose type does not resolve fails after the pair has been recorded.
\<close>

theorem register_store_failure_recorded:
  "fst (register_store example_env example_workspace ''s'' (CStr ''nosuch'') True [])
     = Inl ConfigurationError
   \<and> store_infos example_workspace ''s'' = None
   \<and> store_infos (snd (register_store example_env example_workspace ''s'' (CStr ''nosuch'') True []))
       ''s'' = Some (CStr ''nosuch'', [])"
  by (simp add: register_store_def example_workspace_def example_env_def concrete_extension_def
        record_info_def Let_def)

text \<open>
  C4, amended. \<^verbatim>\<open>register_store\<close> fails with \<open>ConfigurationError\<close> when the name is
  already registered, and the dictionary form does when there is neither a \<^verbatim>\<open>type\<close>
  nor a \<^verbatim>\<open>backend\<close> key; both leave the workspace unchanged. It fails with
  \<open>ConfigurationError\<close> too when the type does not resolve to a store extension. Whenever
  the name was free, \<^verbatim>\<open>store_infos\<close> after the call is \<^verbatim>\<open>store_infos\<close> before it
  with one more entry, whether the call succeeded or failed: under the name, the type
  and the configuration without the keys popped by then, which are \<^verbatim>\<open>model\<close> (when
  models are included) and, when the type resolved, \<^verbatim>\<open>model_provider\<close> and
  \<^verbatim>\<open>namespace\<close> as well.
\<close>

theorem register_store_failures:
  "(store_infos ws name \<noteq> None
      \<longrightarrow> register_store e ws name t im config = (Inl ConfigurationError, ws))
   \<and> (map_of info ''type'' = None \<and> map_of info ''backend'' = None
      \<longrightarrow> register_store_dict e ws name info = (Inl ConfigurationError, ws))
   \<and> (store_infos ws name = None \<and> concrete_extension (store_ext e) t = Inl err
      \<longrightarrow> fst (register_store e ws name t im config) = Inl ConfigurationError)
   \<and> (store_infos ws name = None
      \<longrightarrow> store_infos (snd (register_store e ws name t im config)) =
           (store_infos ws)(name \<mapsto> (t,
              (case concrete_extension (store_ext e) t of
                 Inl err \<Rightarrow>
                   (if im \<and> map_of config ''model'' \<noteq> None then AList.delete ''model'' config
                    else config)
               | Inr cls \<Rightarrow>
                   AList.delete ''namespace'' (AList.delete ''model_provider''
                     (if im \<and> map_of config ''model'' \<noteq> None then AList.delete ''model'' config
                      else config))))))"
proof (intro conjI impI)
  assume "store_infos ws name \<noteq> None"
  then show "register_store e ws name t im config = (Inl ConfigurationError, ws)"
    by (rule register_store_duplicate)
next
  assume "map_of info ''type'' = None \<and> map_of info ''backend'' = None"
  then show "register_store_dict e ws name info = (Inl ConfigurationError, ws)"
    by (simp add: register_store_dict_no_type)
next
  assume "store_infos ws name = None \<and> concrete_extension (store_ext e) t = Inl err"
  then show "fst (register_store e ws name t im config) = Inl ConfigurationError"
    by (simp add: register_store_unresolved)
next
  assume "store_infos ws name = None"
  then show "store_infos (snd (register_store e ws name t im config)) =
           (store_infos ws)(name \<mapsto> (t,
              (case concrete_extension (store_ext e) t of
                 Inl err \<Rightarrow>
                   (if im \<and> map_of config ''model'' \<noteq> None then AList.delete ''model'' config
                    else config)
               | Inr cls \<Rightarrow>
                   AList.delete ''namespace'' (AList.delete ''model_provider''
                     (if im \<and> map_of config ''model'' \<noteq> None then AList.delete ''model'' config
                      else config)))))"
    by (rule register_store_records)
qed

theorem register_store_failures_witness:
  "store_infos example_workspace ''default'' \<noteq> None
   \<and> register_store example_env example_workspace ''default'' (CStr ''sql'') True []
       = (Inl ConfigurationError, example_workspace)
   \<and> map_of [(''url'', CStr ''sqlite://'')] ''type'' = None
   \<and> map_of [(''url'', CStr ''sqlite://'')] ''backend'' = None
   \<and> register_store_dict example_env example_workspace ''s'' [(''url'', CStr ''sqlite://'')]
       = (Inl ConfigurationError, example_workspace)
   \<and> store_infos example_workspace ''s'' = None
   \<and> concrete_extension (store_ext example_env) (CStr ''nosuch'') = Inl ConfigurationError
   \<and> fst (register_store example_env example_workspace ''s'' (CStr ''nosuch'') True
             [(''url'', CStr ''sqlite://''), (''model'', CStr ''model.json'')])
       = Inl ConfigurationError
   \<and> store_infos (snd (register_store example_env example_workspace ''s'' (CStr ''nosuch'') True
                          [(''url'', CStr ''sqlite://''), (''model'', CStr ''model.json'')])) ''s''
       = Some (CStr ''nosuch'', [(''url'', CStr ''sqlite://'')])
   \<and> store_infos (snd (register_store example_env example_workspace ''s'' (CStr ''sql'') True
                          [(''url'', CStr ''sqlite://''), (''namespace'', CStr ''reports'')])) ''s''
       = Some (CStr ''sql'', [(''url'', CStr ''sqlite://'')])"
proof -
  let ?c1 = "[(''url'', CStr ''sqlite://''), (''model'', CStr ''model.json'')]"
  let ?c2 = "[(''url'', CStr ''sqlite://''), (''namespace'', CStr ''reports'')]"
  have a: "store_infos example_workspace ''default'' \<noteq> None"
    by (simp add: example_workspace_def)
  have b: "map_of [(''url'', CStr ''sqlite://'')] ''type'' = None"
          "map_of [(''url'', CStr ''sqlite://'')] ''backend'' = None" by simp_all
  have c: "store_infos example_workspace ''s'' = None"
    by (simp add: example_workspace_def)
  have d: "concrete_extension (store_ext example_env) (CStr ''nosuch'') = Inl ConfigurationError"
    by (simp add: concrete_extension_def example_env_def)
  have d2: "concrete_extension (store_ext example_env) (CStr ''sql'') = Inr example_store_factory"
    by (simp add: concrete_extension_def example_env_def)
  note t1 = register_store_failures[of example_workspace "''default''" example_env "CStr ''sql''" True "[]"]
  note t2 = register_store_failures[of example_workspace "''s''" example_env "CStr ''nosuch''" True
               ?c1 "[(''url'', CStr ''sqlite://'')]" ConfigurationError]
  note t3 = register_store_failures[of example_workspace "''s''" example_env "CStr ''sql''" True ?c2]
  from t1 a have r1: "register_store example_env example_workspace ''default'' (CStr ''sql'') True []
       = (Inl ConfigurationError, example_workspace)" by blast
  from t2 b have r2: "register_store_dict example_env example_workspace ''s'' [(''url'', CStr ''sqlite://'')]
       = (Inl ConfigurationError, example_workspace)" by blast
  from t2 c d have r3: "fst (register_store example_env example_workspace ''s'' (CStr ''nosuch'') True ?c1)
       = Inl ConfigurationError" by blast
  from t2 c have "store_infos (snd (register_store example_env example_workspace ''s''
                                  (CStr ''nosuch'') True ?c1))
              = (store_infos example_workspace)(''s'' \<mapsto> (CStr ''nosuch'',
                  (case concrete_extension (store_ext example_env) (CStr ''nosuch'') of
                 Inl err \<Rightarrow>
                   (if True \<and> map_of ?c1 ''model'' \<noteq> None then AList.delete ''model'' ?c1
                    else ?c1)
               | Inr cls \<Rightarrow>
                   AList.delete ''namespace'' (AList.delete ''model_provider''
                     (if True \<and> map_of ?c1 ''model'' \<noteq> None then AList.delete ''model'' ?c1
                      else ?c1)))))" by blast
  then have r4: "store_infos (snd (register_store example_env example_workspace ''s''
                                  (CStr ''nosuch'') True ?c1)) ''s''
       = Some (CStr ''nosuch'', [(''url'', CStr ''sqlite://'')])"
    by (simp add: d)
  from t3 c have "store_infos (snd (register_store example_env example_workspace ''s''
                                  (CStr ''sql'') True ?c2))
              = (store_infos example_workspace)(''s'' \<mapsto> (CStr ''sql'',
                  (case concrete_extension (store_ext example_env) (CStr ''sql'') of
                 Inl err \<Rightarrow>
                   (if True \<and> map_of ?c2 ''model'' \<noteq> None then AList.delete ''model'' ?c2
                    else ?c2)
               | Inr cls \<Rightarrow>
                   AList.delete ''namespace'' (AList.delete ''model_provider''
                     (if True \<and> map_of ?c2 ''model'' \<noteq> None then AList.delete ''model'' ?c2
                      else ?c2)))))" by blast
  then have r5: "store_infos (snd (register_store example_env example_workspace ''s''
                                  (CStr ''sql'') True ?c2)) ''s''
       = Some (CStr ''sql'', [(''url'', CStr ''sqlite://'')])"
    by (simp add: d2)
  show ?thesis using a b c d r1 r2 r3 r4 r5 by simp
qed

end
